theory Spec2Isabelle
  imports Complex_Main
begin

section \<open>Shared vocabulary\<close>

text \<open>
  The program is three Go packages (\<open>embed\<close>, \<open>upsert\<close> and \<open>main\<close>) that talk to
  two remote services over HTTP. Every network exchange is made explicit: the outcome
  of \<open>client.Do\<close> followed by \<open>json.NewDecoder(...).Decode\<close> is a value of type
  \<open>'a reply\<close> handed to the function that performs the exchange.
\<close>

text \<open>Go's \<open>float64\<close>. No function of the program computes with these values; they
  are only decoded, copied, formatted and parsed.\<close>

datatype float64 = Finite real | PosInf | NegInf | NaN

text \<open>A decoded JSON value (\<open>interface{}\<close> after \<open>Decode\<close>).\<close>

datatype json =
    JNull
  | JBool bool
  | JNumber float64
  | JString string
  | JArray "json list"
  | JObject "(string \<times> json) list"

datatype error =
    RequestError              \<comment> \<open>\<open>http.NewRequest\<close> rejected the URL\<close>
  | TransportError            \<comment> \<open>\<open>client.Do\<close> returned an error\<close>
  | HTTPRequestError          \<comment> \<open>\<open>"HTTP request error: %w"\<close>\<close>
  | DecodeError               \<comment> \<open>the JSON decoder returned an error\<close>
  | NoDataInResponse          \<comment> \<open>\<open>"no data in response"\<close>\<close>
  | EmbeddingQueryError error \<comment> \<open>\<open>"error embedding query message: %v"\<close>\<close>
  | ProjectNameMissing        \<comment> \<open>\<open>"project_name not found or is not a string"\<close>\<close>
  | CreateIndexFailed nat     \<comment> \<open>\<open>"failed to create index, status code: %d"\<close>\<close>
  | MarshalError              \<comment> \<open>\<open>json.Marshal\<close> returned an error\<close>
  | ReadError                 \<comment> \<open>\<open>reader.ReadString\<close> returned an error\<close>
  | ScannerError              \<comment> \<open>\<open>scanner.Err()\<close> is not nil\<close>
  | EOF                       \<comment> \<open>\<open>io.EOF\<close>\<close>

text \<open>One HTTP exchange whose body is decoded: the transport failed, the body could not
  be decoded into the target type, or it was decoded.\<close>

datatype 'a reply = NoReply | BadBody | Body 'a

subsection \<open>Constants\<close>

definition pcEnv :: string where "pcEnv = ''gcp-starter''"
definition pcAPIURL :: string where "pcAPIURL = ''.pinecone.io/''"
definition pcCtrlPrefix :: string where "pcCtrlPrefix = ''https://controller.''"
definition pcProjectIDPath :: string where "pcProjectIDPath = ''actions/whoami''"
definition pcCreateorConnectToIndexPath :: string where
  "pcCreateorConnectToIndexPath = ''databases/''"
definition pcVectorUpsert :: string where "pcVectorUpsert = ''vectors/upsert''"
definition indexDimension :: nat where "indexDimension = 1536"
definition indexMetric :: string where "indexMetric = ''cosine''"
definition topK :: nat where "topK = 1"
definition embeddingModel :: string where "embeddingModel = ''text-embedding-ada-002''"

section \<open>Package embed: GetEmbedding\<close>

text \<open>\<open>ResponseData\<close>: the field \<open>Data\<close>, each element reduced to its only field
  \<open>Embedding\<close>.\<close>

type_synonym ResponseData = "float64 list list"

text \<open>The two \<open>strings.ReplaceAll\<close> calls on the text: a newline becomes a space, then
  a single quote becomes the four characters quote, backslash, quote, quote.\<close>

definition sanitize :: "string \<Rightarrow> string" where
  "sanitize text =
     concat (map (\<lambda>c. if c = CHR 0x27 then [CHR 0x27, CHR 0x5C, CHR 0x27, CHR 0x27] else [c])
       (map (\<lambda>c. if c = CHR 0x0A then CHR 0x20 else c) text))"

text \<open>
  \<open>GetEmbedding text model\<close>, given the outcome \<open>resp\<close> of its single POST.
  \<open>http.NewRequest\<close> is called with a constant method and a constant URL, so its error
  branch cannot be taken and has no counterpart here.
\<close>

definition GetEmbedding :: "string \<Rightarrow> string \<Rightarrow> ResponseData reply \<Rightarrow> error + float64 list" where
  "GetEmbedding text model resp =
     (case resp of
        NoReply \<Rightarrow> Inl HTTPRequestError
      | BadBody \<Rightarrow> Inl DecodeError
      | Body responseData \<Rightarrow>
          if length responseData = 0 \<or> length (responseData ! 0) = 0
          then Inl NoDataInResponse
          else Inr (responseData ! 0))"

text \<open>
  C7. \<open>GetEmbedding\<close> returns an error exactly when the transport fails, the body cannot
  be decoded, or the decoded response has no embedding vector (an empty data list or an
  empty first embedding); in every other case it returns the first embedding of the
  response, which is not empty.
\<close>

theorem GetEmbedding_error_exactly:
  "(isl (GetEmbedding text model resp) \<longleftrightarrow>
      resp = NoReply \<or> resp = BadBody \<or> (\<exists>d. resp = Body d \<and> (d = [] \<or> d ! 0 = []))) \<and>
   (\<not> isl (GetEmbedding text model resp) \<longrightarrow>
      (\<exists>d. resp = Body d \<and> d \<noteq> [] \<and> GetEmbedding text model resp = Inr (d ! 0) \<and> d ! 0 \<noteq> []))"
  by (cases resp) (auto simp: GetEmbedding_def)

theorem GetEmbedding_error_exactly_witness:
  "\<not> isl (GetEmbedding ''hi'' embeddingModel (Body [[Finite 1, Finite 2], []])) \<and>
   GetEmbedding ''hi'' embeddingModel (Body [[Finite 1, Finite 2], []]) = Inr [Finite 1, Finite 2] \<and>
   isl (GetEmbedding ''hi'' embeddingModel (Body [[], [Finite 1]])) \<and>
   isl (GetEmbedding ''hi'' embeddingModel NoReply)"
  using GetEmbedding_error_exactly [of "''hi''" embeddingModel "Body [[Finite 1, Finite 2], []]"]
    GetEmbedding_error_exactly [of "''hi''" embeddingModel "Body [[], [Finite 1]]"]
    GetEmbedding_error_exactly [of "''hi''" embeddingModel NoReply]
  by (simp add: GetEmbedding_def)

section \<open>Package main: getPcProjectID\<close>

text \<open>The comma-ok type assertion \<open>v, ok := x.(string)\<close> on the result of a map
  lookup: a missing key gives the nil interface. It never panics.\<close>

definition assert_string_ok :: "json option \<Rightarrow> string \<times> bool" where
  "assert_string_ok x = (case x of Some (JString s) \<Rightarrow> (s, True) | _ \<Rightarrow> ('''', False))"

text \<open>The single-value type assertion \<open>x.(string)\<close>: \<open>None\<close> is the run-time panic.\<close>

definition assert_string :: "json option \<Rightarrow> string option" where
  "assert_string x = (case x of Some (JString s) \<Rightarrow> Some s | _ \<Rightarrow> None)"

text \<open>\<open>getPcProjectID\<close>, given the outcome of the whoami GET decoded into a
  \<open>map[string]interface{}\<close>. The request URL is a constant.\<close>

definition getPcProjectID :: "(string \<rightharpoonup> json) reply \<Rightarrow> error + string" where
  "getPcProjectID resp =
     (case resp of
        NoReply \<Rightarrow> Inl TransportError
      | BadBody \<Rightarrow> Inl DecodeError
      | Body result \<Rightarrow>
          (let (pcProjectID, ok) = assert_string_ok (result ''project_name'')
           in if \<not> ok then Inl ProjectNameMissing else Inr pcProjectID))"

text \<open>
  C10. For every decoded whoami response, \<open>getPcProjectID\<close> returns an error when the
  response has no \<open>project_name\<close> key or its value is not a string, and returns that
  string otherwise. The result type has no panic outcome: the assertion is the comma-ok
  form.
\<close>

theorem getPcProjectID_decoded:
  "((result ''project_name'' = None \<or>
     (\<exists>v. result ''project_name'' = Some v \<and> (\<forall>s. v \<noteq> JString s))) \<longrightarrow>
       getPcProjectID (Body result) = Inl ProjectNameMissing) \<and>
   (\<forall>s. result ''project_name'' = Some (JString s) \<longrightarrow> getPcProjectID (Body result) = Inr s)"
  by (auto simp: getPcProjectID_def assert_string_ok_def split: option.splits json.splits)

theorem getPcProjectID_decoded_witness:
  "getPcProjectID (Body (Map.empty(''project_name'' \<mapsto> JString ''abc1234''))) = Inr ''abc1234'' \<and>
   getPcProjectID (Body (Map.empty(''project_name'' \<mapsto> JNumber (Finite 7)))) = Inl ProjectNameMissing \<and>
   getPcProjectID (Body (Map.empty(''user_name'' \<mapsto> JString ''u''))) = Inl ProjectNameMissing"
  using getPcProjectID_decoded [of "Map.empty(''project_name'' \<mapsto> JString ''abc1234'')"]
    getPcProjectID_decoded [of "Map.empty(''project_name'' \<mapsto> JNumber (Finite 7))"]
    getPcProjectID_decoded [of "Map.empty(''user_name'' \<mapsto> JString ''u'')"]
  by simp

section \<open>Package upsert: GetOrCreatePineconeIndex\<close>

text \<open>The calls to the control plane: the GET on \<open>databases/<name>\<close> and the POST on
  \<open>databases/\<close> with the JSON object \<open>{name, dimension, metric}\<close>.\<close>

datatype ctrl_call = Connect string | Create string nat string

definition connectionURL :: "string \<Rightarrow> string" where
  "connectionURL indexName =
     pcCtrlPrefix @ pcEnv @ pcAPIURL @ pcCreateorConnectToIndexPath @ indexName"

text \<open>
  \<open>GetOrCreatePineconeIndex indexName\<close>. \<open>newRequestOK\<close> says whether
  \<open>http.NewRequest\<close> accepts a URL; it is asked only about the connection URL, which
  contains the caller's index name (the creation URL is a constant, and
  \<open>json.Marshal\<close> of a string, an int and a string cannot fail). \<open>connect\<close> and
  \<open>create\<close> are the outcomes of the two \<open>client.Do\<close> calls: an error or the status
  code of the response; \<open>create\<close> is looked at only when the POST is sent. The result
  is the returned error (\<open>None\<close> is \<open>nil\<close>) and the calls issued, in order.
\<close>

definition GetOrCreatePineconeIndex ::
  "(string \<Rightarrow> bool) \<Rightarrow> string \<Rightarrow> error + nat \<Rightarrow> error + nat \<Rightarrow> error option \<times> ctrl_call list" where
  "GetOrCreatePineconeIndex newRequestOK indexName connect create =
     (if \<not> newRequestOK (connectionURL indexName) then (Some RequestError, [])
      else case connect of
        Inl err \<Rightarrow> (Some err, [Connect indexName])
      | Inr statusCode \<Rightarrow>
          if statusCode \<noteq> 200 then
            (case create of
               Inl err \<Rightarrow>
                 (Some err, [Connect indexName, Create indexName indexDimension indexMetric])
             | Inr createStatus \<Rightarrow>
                 if createStatus \<noteq> 200 \<and> createStatus \<noteq> 201
                 then (Some (CreateIndexFailed createStatus),
                       [Connect indexName, Create indexName indexDimension indexMetric])
                 else (None, [Connect indexName, Create indexName indexDimension indexMetric]))
          else (None, [Connect indexName]))"

definition is_create :: "ctrl_call \<Rightarrow> bool" where
  "is_create c = (case c of Create _ _ _ \<Rightarrow> True | Connect _ \<Rightarrow> False)"

text \<open>
  C5. Whenever the connection request can be built, the first call issued is the
  connect call. A create call is issued if and only if the connect call was answered
  with a status other than 200; it is then the second and last call and carries the
  index name, the dimension 1536 and the metric cosine. A creation answered with 200 or
  201 returns nil, any other creation status returns an error, and a connect call
  answered with 200 returns nil after that single call.
\<close>

theorem GetOrCreatePineconeIndex_calls:
  assumes "newRequestOK (connectionURL indexName)"
  shows "(case GetOrCreatePineconeIndex newRequestOK indexName connect create of
            (err, calls) \<Rightarrow>
              calls \<noteq> [] \<and> hd calls = Connect indexName \<and>
              (list_ex is_create calls \<longleftrightarrow> (\<exists>st. connect = Inr st \<and> st \<noteq> 200)) \<and>
              (\<forall>st. connect = Inr st \<and> st \<noteq> 200 \<longrightarrow>
                 calls = [Connect indexName, Create indexName 1536 ''cosine''] \<and>
                 (\<forall>cs. create = Inr cs \<longrightarrow>
                    err = (if cs = 200 \<or> cs = 201 then None else Some (CreateIndexFailed cs))) \<and>
                 (\<forall>e. create = Inl e \<longrightarrow> err = Some e)) \<and>
              (connect = Inr 200 \<longrightarrow> err = None \<and> calls = [Connect indexName]))"
  using assms
  by (auto simp: GetOrCreatePineconeIndex_def is_create_def indexDimension_def indexMetric_def
      split: sum.splits)

theorem GetOrCreatePineconeIndex_calls_witness:
  "(\<lambda>u. True) (connectionURL ''whatsapp-chat'') \<and>
   GetOrCreatePineconeIndex (\<lambda>u. True) ''whatsapp-chat'' (Inr 404) (Inr 201) =
     (None, [Connect ''whatsapp-chat'', Create ''whatsapp-chat'' 1536 ''cosine'']) \<and>
   fst (GetOrCreatePineconeIndex (\<lambda>u. True) ''whatsapp-chat'' (Inr 404) (Inr 500)) =
     Some (CreateIndexFailed 500) \<and>
   GetOrCreatePineconeIndex (\<lambda>u. True) ''whatsapp-chat'' (Inr 200) (Inr 500) =
     (None, [Connect ''whatsapp-chat''])"
proof -
  have ok: "(\<lambda>u. True) (connectionURL ''whatsapp-chat'')" by simp
  note t = GetOrCreatePineconeIndex_calls [of "\<lambda>u. True" "''whatsapp-chat''", OF ok]
  have c1: "GetOrCreatePineconeIndex (\<lambda>u. True) ''whatsapp-chat'' (Inr 404) (Inr 201) =
      (None, [Connect ''whatsapp-chat'', Create ''whatsapp-chat'' 1536 ''cosine''])"
    using t [of "Inr 404" "Inr 201"] by (simp split: prod.splits)
  have c2: "fst (GetOrCreatePineconeIndex (\<lambda>u. True) ''whatsapp-chat'' (Inr 404) (Inr 500)) =
      Some (CreateIndexFailed 500)"
    using t [of "Inr 404" "Inr 500"] by (simp split: prod.splits)
  have c3: "GetOrCreatePineconeIndex (\<lambda>u. True) ''whatsapp-chat'' (Inr 200) (Inr 500) =
      (None, [Connect ''whatsapp-chat''])"
    using t [of "Inr 200" "Inr 500"] by (simp split: prod.splits)
  from ok c1 c2 c3 show ?thesis by simp
qed

section \<open>Package embed: the line pattern of CreateEmbeddingFile\<close>

text \<open>
  Each line is matched with \<open>regexp.MustCompile(`(?:\[.*?\]\s*:\s*~?|^)(\S+)`)\<close> and
  \<open>FindStringSubmatch\<close>. The pattern has one capture group, so the result is either
  \<open>nil\<close> or the two strings (whole match, group). Go's \<open>regexp\<close> returns the match a
  backtracking search finds first: the leftmost start position, at each position the
  bracket alternative before the \<open>^\<close> alternative, \<open>.*?\<close> as short as possible, the
  other repetitions as long as possible. The functions below are that search for this
  pattern; each returns the text matched before the group and the group.

  \<open>\s\<close> is tab, newline, form feed, carriage return and space; \<open>\S\<close> is every other
  character; \<open>.\<close> is every character but newline. Strings are byte sequences: the
  literals of the pattern are ASCII and every byte of a multi-byte character is in \<open>\S\<close>
  and in \<open>.\<close>, so the search on bytes finds the same match.
\<close>

definition is_space :: "char \<Rightarrow> bool" where
  "is_space c = (c = CHR 0x09 \<or> c = CHR 0x0A \<or> c = CHR 0x0C \<or> c = CHR 0x0D \<or> c = CHR 0x20)"

definition non_space :: "char \<Rightarrow> bool" where
  "non_space c = (\<not> is_space c)"

text \<open>\<open>\s*:\s*~?(\S+)\<close> at the start of \<open>s\<close>. Neither \<open>:\<close> nor a character of \<open>\S\<close>
  is in \<open>\s\<close>, so both \<open>\s*\<close> take every space in front of them; \<open>~?\<close> takes a tilde
  unless nothing of \<open>\S\<close> follows it, in which case the tilde is the group.\<close>

definition match_separator :: "string \<Rightarrow> (string \<times> string) option" where
  "match_separator s =
     (let ws1 = takeWhile is_space s; s1 = dropWhile is_space s in
      case s1 of
        [] \<Rightarrow> None
      | c # s2 \<Rightarrow>
          if c \<noteq> CHR '':'' then None
          else
            (let ws2 = takeWhile is_space s2; s3 = dropWhile is_space s2 in
             case s3 of
               [] \<Rightarrow> None
             | d # s4 \<Rightarrow>
                 if d = CHR ''~'' \<and> takeWhile non_space s4 \<noteq> []
                 then Some (ws1 @ [c] @ ws2 @ [d], takeWhile non_space s4)
                 else Some (ws1 @ [c] @ ws2, takeWhile non_space s3)))"

text \<open>\<open>.*?\]\s*:\s*~?(\S+)\<close> after an opening bracket: the first closing bracket
  after which the separator matches.\<close>

fun match_bracket :: "string \<Rightarrow> (string \<times> string) option" where
  "match_bracket [] = None"
| "match_bracket (c # cs) =
     (if c = CHR '']'' then
        (case match_separator cs of
           Some (pre, g) \<Rightarrow> Some (c # pre, g)
         | None \<Rightarrow> map_option (\<lambda>(pre, g). (c # pre, g)) (match_bracket cs))
      else if c = CHR 0x0A then None
      else map_option (\<lambda>(pre, g). (c # pre, g)) (match_bracket cs))"

text \<open>The whole pattern at one position; \<open>at_start\<close> says whether the position is the
  beginning of the line, where alone \<open>^\<close> matches.\<close>

definition match_here :: "bool \<Rightarrow> string \<Rightarrow> (string \<times> string) option" where
  "match_here at_start s =
     (case (case s of
              [] \<Rightarrow> None
            | c # cs \<Rightarrow>
                if c = CHR ''[''
                then map_option (\<lambda>(pre, g). (c # pre, g)) (match_bracket cs)
                else None) of
        Some r \<Rightarrow> Some r
      | None \<Rightarrow>
          if at_start \<and> takeWhile non_space s \<noteq> [] then Some ([], takeWhile non_space s)
          else None)"

fun find_from :: "bool \<Rightarrow> string \<Rightarrow> string list" where
  "find_from at_start [] =
     (case match_here at_start [] of Some (pre, g) \<Rightarrow> [pre @ g, g] | None \<Rightarrow> [])"
| "find_from at_start (c # cs) =
     (case match_here at_start (c # cs) of
        Some (pre, g) \<Rightarrow> [pre @ g, g]
      | None \<Rightarrow> find_from False cs)"

definition FindStringSubmatch :: "string \<Rightarrow> string list" where
  "FindStringSubmatch line = find_from True line"

text \<open>The choice of the message from the matches, as in the loop body: the message and
  whether the line counted as parsed. A line that does not parse leaves \<open>message\<close> at its
  zero value, the empty string.\<close>

definition extract_message :: "string \<Rightarrow> string \<times> bool" where
  "extract_message line =
     (let matches = FindStringSubmatch line in
      if length matches = 3 then (matches ! 2, True)
      else if length matches = 2 then (matches ! 1, True)
      else ('''', False))"

text \<open>
  C4. The claim: for the line \<open>[09.09.23, 14:35:02] ~ john_doe: Hello world!\<close> the
  parser extracts \<open>Hello world!\<close>, and a line with no recognizable separator yields its
  first whitespace-delimited token. On the code the bracket alternative does not match
  the documented line (a tilde, not a colon, follows the closing bracket), the \<open>^\<close>
  alternative matches at position 0, and the message is the first token of the line.
\<close>

theorem extract_message_documented_line:
  "extract_message ''[09.09.23, 14:35:02] ~ john_doe: Hello world!'' = (''[09.09.23,'', True)"
  by (simp add: extract_message_def FindStringSubmatch_def match_here_def match_separator_def
      is_space_def non_space_def)

text \<open>A line that starts with a space and has no separator does not match at all: its
  first token is not extracted.\<close>

lemma extract_message_leading_space:
  "extract_message ''  Hello world!'' = ('''', False)"
  by (simp add: extract_message_def FindStringSubmatch_def match_here_def match_separator_def
      is_space_def non_space_def)

text \<open>Where the bracket alternative does match, the group is one token.\<close>

lemma extract_message_bracket_colon:
  "extract_message ''[14:35:02]: ~Hello world!'' = (''Hello'', True)"
  by (simp add: extract_message_def FindStringSubmatch_def match_here_def match_separator_def
      is_space_def non_space_def)

section \<open>Package upsert: UpsertDataToPinecone\<close>

text \<open>\<open>strings.Split(line, ",")\<close>: the fields between the commas; a line without a
  comma, the empty line too, is one field.\<close>

fun split_comma :: "string \<Rightarrow> string list" where
  "split_comma [] = [[]]"
| "split_comma (c # cs) =
     (if c = CHR '','' then [] # split_comma cs
      else (case split_comma cs of
              [] \<Rightarrow> [[c]]
            | v # vs \<Rightarrow> (c # v) # vs))"

text \<open>\<open>json.Marshal\<close> refuses a \<open>float64\<close> that is NaN or infinite.\<close>

definition is_finite :: "float64 \<Rightarrow> bool" where
  "is_finite f = (case f of Finite _ \<Rightarrow> True | _ \<Rightarrow> False)"

text \<open>The verb \<open>%d\<close> on a line number.\<close>

fun sprintf_d :: "nat \<Rightarrow> string" where
  "sprintf_d n =
     (if n < 10 then [''0123456789'' ! n]
      else sprintf_d (n div 10) @ [''0123456789'' ! (n mod 10)])"

datatype upsert_log =
    LogParseFloatError nat    \<comment> \<open>\<open>"Error parsing float value at line %d: %v"\<close>\<close>
  | LogMarshalError nat       \<comment> \<open>\<open>"Error marshalling data at line %d: %v"\<close>\<close>
  | LogNewRequestError nat    \<comment> \<open>\<open>"Error creating new request at line %d: %v"\<close>\<close>
  | LogHTTPRequestError nat   \<comment> \<open>\<open>"Error in HTTP request at line %d: %v"\<close>\<close>
  | LogHTTPStatus nat nat     \<comment> \<open>\<open>"HTTP error at line %d: %s"\<close>\<close>

text \<open>The three counters of the loop, the upsert calls sent (the identifier and the
  values of the one vector each carries) and the log lines, in order.\<close>

record upsert_state =
  lineNumber :: nat
  upsertedCount :: nat
  failCount :: nat
  sent :: "(string \<times> float64 list) list"
  upsertLog :: "upsert_log list"

text \<open>
  One turn of the scanner loop, on a line and the outcome of the \<open>client.Do\<close> made for
  it (an error or the status code; looked at only when the call is made).
  \<open>ParseFloat\<close> stands for \<open>strconv.ParseFloat(v, 64)\<close>: the value it returns and
  whether it returned no error; the value is stored in \<open>values[i]\<close> in both cases. The
  \<open>continue\<close> after the log line of a parse error is the last statement of the inner
  loop over the fields, so it goes on with the next field and the row is processed
  further. \<open>upsertedCount\<close> is the variable \<open>successCount\<close> of this function.
\<close>

definition upsert_row ::
  "(string \<Rightarrow> float64 \<times> bool) \<Rightarrow> (string \<Rightarrow> bool) \<Rightarrow> string \<Rightarrow>
   string \<times> (error + nat) \<Rightarrow> upsert_state \<Rightarrow> upsert_state" where
  "upsert_row ParseFloat newRequestOK upsertURL row st =
     (let n = lineNumber st + 1;
          valuesStr = split_comma (fst row);
          values = map (\<lambda>v. fst (ParseFloat v)) valuesStr;
          st1 = st\<lparr>lineNumber := n,
                   upsertLog := upsertLog st @
                     map (\<lambda>v. LogParseFloatError n) (filter (\<lambda>v. \<not> snd (ParseFloat v)) valuesStr)\<rparr>
      in if \<not> list_all is_finite values
         then st1\<lparr>upsertLog := upsertLog st1 @ [LogMarshalError n]\<rparr>
         else if \<not> newRequestOK upsertURL
         then st1\<lparr>upsertLog := upsertLog st1 @ [LogNewRequestError n]\<rparr>
         else
           (let st2 = st1\<lparr>sent := sent st1 @ [(''vector_id_'' @ sprintf_d n, values)]\<rparr>
            in case snd row of
                 Inl err \<Rightarrow>
                   st2\<lparr>failCount := failCount st2 + 1,
                       upsertLog := upsertLog st2 @ [LogHTTPRequestError n]\<rparr>
               | Inr statusCode \<Rightarrow>
                   if statusCode \<ge> 400
                   then st2\<lparr>failCount := failCount st2 + 1,
                            upsertLog := upsertLog st2 @ [LogHTTPStatus n statusCode]\<rparr>
                   else st2\<lparr>upsertedCount := upsertedCount st2 + 1\<rparr>))"

fun upsert_rows ::
  "(string \<Rightarrow> float64 \<times> bool) \<Rightarrow> (string \<Rightarrow> bool) \<Rightarrow> string \<Rightarrow>
   (string \<times> (error + nat)) list \<Rightarrow> upsert_state \<Rightarrow> upsert_state" where
  "upsert_rows ParseFloat newRequestOK upsertURL [] st = st"
| "upsert_rows ParseFloat newRequestOK upsertURL (row # rows) st =
     upsert_rows ParseFloat newRequestOK upsertURL rows
       (upsert_row ParseFloat newRequestOK upsertURL row st)"

definition upsert_init :: upsert_state where
  "upsert_init = \<lparr>lineNumber = 0, upsertedCount = 0, failCount = 0, sent = [], upsertLog = []\<rparr>"

text \<open>
  How a call ends: an error returned before the loop, the panic of the single-value
  type assertion on \<open>result["project_name"]\<close>, \<open>log.Fatalf\<close> when the file cannot be
  opened, or the summary followed by the return of \<open>scanner.Err()\<close>. \<open>file\<close> is
  \<open>None\<close> when the file cannot be opened, and else the rows scanned, each with the
  outcome of its call, and whether the scanner ended with an error.
\<close>

datatype upsert_exit =
    ReturnedError error
  | Panicked
  | FatalOpenFile
  | Summary upsert_state "error option"

definition UpsertDataToPinecone ::
  "(string \<Rightarrow> float64 \<times> bool) \<Rightarrow> (string \<Rightarrow> bool) \<Rightarrow> string \<Rightarrow> (string \<rightharpoonup> json) reply \<Rightarrow>
   ((string \<times> (error + nat)) list \<times> bool) option \<Rightarrow> upsert_exit" where
  "UpsertDataToPinecone ParseFloat newRequestOK indexName whoami file =
     (case whoami of
        NoReply \<Rightarrow> ReturnedError TransportError
      | BadBody \<Rightarrow> ReturnedError DecodeError
      | Body result \<Rightarrow>
          (case assert_string (result ''project_name'') of
             None \<Rightarrow> Panicked
           | Some pcProjectID \<Rightarrow>
               (let upsertURL = ''https://'' @ indexName @ ''-'' @ pcProjectID @ ''.svc.'' @ pcEnv
                                  @ pcAPIURL @ pcVectorUpsert
                in case file of
                     None \<Rightarrow> FatalOpenFile
                   | Some (rows, scanErr) \<Rightarrow>
                       Summary (upsert_rows ParseFloat newRequestOK upsertURL rows upsert_init)
                         (if scanErr then Some ScannerError else None))))"

text \<open>\<open>strconv.ParseFloat\<close> at the strings the examples use: \<open>0.5\<close> and \<open>1\<close> are
  floats; for any other string of the examples, none of which is a float, it returns 0
  and a syntax error.\<close>

definition ParseFloat_sample :: "string \<Rightarrow> float64 \<times> bool" where
  "ParseFloat_sample v =
     (if v = ''0.5'' then (Finite (1 / 2), True)
      else if v = ''1'' then (Finite 1, True)
      else (Finite 0, False))"

text \<open>A call is counted as a success or as a failure exactly when it was sent.\<close>

lemma upsert_row_counts:
  "upsertedCount (upsert_row P ok url row st) + failCount (upsert_row P ok url row st)
     + length (sent st) =
   upsertedCount st + failCount st + length (sent (upsert_row P ok url row st))"
  by (simp add: upsert_row_def Let_def split: sum.splits)

lemma upsert_rows_counts:
  "upsertedCount (upsert_rows P ok url rows st) + failCount (upsert_rows P ok url rows st)
     + length (sent st) =
   upsertedCount st + failCount st + length (sent (upsert_rows P ok url rows st))"
proof (induction rows arbitrary: st)
  case Nil
  show ?case by simp
next
  case (Cons row rows)
  from Cons.IH [of "upsert_row P ok url row st"] upsert_row_counts [of P ok url row st]
  show ?case by simp
qed

lemma upsert_rows_lineNumber:
  "lineNumber (upsert_rows P ok url rows st) = lineNumber st + length rows"
  by (induction rows arbitrary: st) (simp_all add: upsert_row_def Let_def split: sum.splits)

text \<open>
  C2. The claim: a row with a value that is not a valid float is logged, skipped (no
  write call is attempted for it) and left out of both counts. On the code the row
  \<open>0.5,abc\<close> is logged, sent with 0 in place of \<open>abc\<close>, and counted as a success.
\<close>

theorem UpsertDataToPinecone_invalid_float_row:
  "UpsertDataToPinecone ParseFloat_sample (\<lambda>url. True) ''whatsapp-chat''
     (Body (Map.empty(''project_name'' \<mapsto> JString ''abc1234'')))
     (Some ([(''0.5,abc'', Inr 200)], False)) =
   Summary \<lparr>lineNumber = 1, upsertedCount = 1, failCount = 0,
            sent = [(''vector_id_1'', [Finite (1 / 2), Finite 0])],
            upsertLog = [LogParseFloatError 1]\<rparr> None"
  by (simp add: UpsertDataToPinecone_def assert_string_def upsert_row_def upsert_init_def
      ParseFloat_sample_def is_finite_def Let_def)

section \<open>Package embed: the verb %f\<close>

text \<open>
  \<open>fmt.Sprintf("%f", f)\<close>, from the documentation of \<open>fmt\<close> and \<open>strconv\<close>: a
  decimal point and no exponent, six digits after the point, the value rounded to the
  nearest such decimal and, half way between two, to the one with an even last digit;
  a minus sign in front of a negative value; \<open>NaN\<close>, \<open>+Inf\<close> and \<open>-Inf\<close> for the
  values that are no numbers.
\<close>

definition round_half_even :: "real \<Rightarrow> int" where
  "round_half_even y =
     (if y - of_int \<lfloor>y\<rfloor> < 1 / 2 then \<lfloor>y\<rfloor>
      else if y - of_int \<lfloor>y\<rfloor> > 1 / 2 then \<lfloor>y\<rfloor> + 1
      else if even \<lfloor>y\<rfloor> then \<lfloor>y\<rfloor> else \<lfloor>y\<rfloor> + 1)"

text \<open>The number of millionths that \<open>%f\<close> prints for the magnitude of \<open>x\<close>.\<close>

definition millionths :: "real \<Rightarrow> nat" where
  "millionths x = nat (round_half_even (\<bar>x\<bar> * 1000000))"


definition pad6 :: "string \<Rightarrow> string" where
  "pad6 s = drop (length s) ''000000'' @ s"

definition Sprintf_f :: "float64 \<Rightarrow> string" where
  "Sprintf_f f =
     (case f of
        Finite x \<Rightarrow>
          (if x < 0 then ''-'' else '''') @ sprintf_d (millionths x div 1000000) @ ''.''
            @ pad6 (sprintf_d (millionths x mod 1000000))
      | PosInf \<Rightarrow> ''+Inf''
      | NegInf \<Rightarrow> ''-Inf''
      | NaN \<Rightarrow> ''NaN'')"

definition float64ToStringSlice :: "float64 list \<Rightarrow> string list" where
  "float64ToStringSlice floats = map Sprintf_f floats"

section \<open>Package embed: the CSV writer\<close>

text \<open>
  \<open>csv.NewWriter(embedFile)\<close> is a \<open>bufio.Writer\<close> of the default size, 4096 bytes,
  in front of the file. The writer holds the bytes not yet handed to the file and an
  error that, once set, makes every later write fail; the file holds the bytes that
  reached it.
\<close>

definition bufSize :: nat where
  "bufSize = 4096"

record csv_writer =
  pending :: string
  broken :: bool
  onFile :: string

definition new_writer :: csv_writer where
  "new_writer = \<lparr>pending = [], broken = False, onFile = []\<rparr>"

text \<open>
  \<open>bufio.Writer.Flush\<close>: nothing happens after an error or on an empty buffer;
  otherwise the buffer goes to \<open>embedFile.Write\<close>. \<open>room\<close> is the number of bytes the
  file takes before a write to it fails (\<open>None\<close>: no write fails). A write that does
  not fit puts the bytes that fit on the file, keeps the others in the buffer and sets
  the error. Since the error stays, only the first failure of the file is ever seen,
  and \<open>room\<close> is the number of bytes written up to it.
\<close>

definition Flush :: "nat option \<Rightarrow> csv_writer \<Rightarrow> csv_writer" where
  "Flush room w =
     (if broken w \<or> pending w = [] then w
      else case room of
        None \<Rightarrow> w\<lparr>pending := [], onFile := onFile w @ pending w\<rparr>
      | Some c \<Rightarrow>
          if length (onFile w) + length (pending w) \<le> c
          then w\<lparr>pending := [], onFile := onFile w @ pending w\<rparr>
          else w\<lparr>pending := drop (c - length (onFile w)) (pending w),
                  broken := True,
                  onFile := onFile w @ take (c - length (onFile w)) (pending w)\<rparr>)"

text \<open>
  The bytes of one \<open>csv.Writer.Write\<close> going through \<open>WriteString\<close> and
  \<open>WriteByte\<close>: a byte is stored while the buffer has room; a byte that arrives at a
  full buffer has the buffer flushed first; after an error nothing is stored. (A field
  written by \<open>%f\<close> for a \<open>float64\<close> has at most 317 bytes, so \<open>WriteString\<close> never
  sees a string larger than the buffer.)
\<close>

fun bufio_write :: "nat option \<Rightarrow> string \<Rightarrow> csv_writer \<Rightarrow> csv_writer" where
  "bufio_write room [] w = w"
| "bufio_write room (b # bs) w =
     (if broken w then w
      else if length (pending w) < bufSize
      then bufio_write room bs (w\<lparr>pending := pending w @ [b]\<rparr>)
      else (let w' = Flush room w in
            if broken w' then w'
            else bufio_write room bs (w'\<lparr>pending := pending w' @ [b]\<rparr>)))"

text \<open>The line \<open>csv.Writer\<close> writes for a record whose fields need no quotes, as
  those of \<open>%f\<close> do: the fields with commas between them, and a newline.\<close>

fun csv_line :: "string list \<Rightarrow> string" where
  "csv_line [] = []"
| "csv_line [f] = f"
| "csv_line (f # g # fs) = f @ '','' @ csv_line (g # fs)"

definition csv_bytes :: "string list \<Rightarrow> string" where
  "csv_bytes record = csv_line record @ [CHR 0x0A]"

text \<open>\<open>csvWriter.Write(record)\<close>: whether it returned nil, and the writer after
  it.\<close>

definition csv_Write :: "nat option \<Rightarrow> string list \<Rightarrow> csv_writer \<Rightarrow> bool \<times> csv_writer" where
  "csv_Write room record w =
     (let w' = bufio_write room (csv_bytes record) w in (\<not> broken w', w'))"

section \<open>Package embed: CreateEmbeddingFile\<close>

text \<open>The five counters of the summary, the records for which \<open>csvWriter.Write\<close>
  returned nil, in order, and the writer.\<close>

record embed_state =
  linesProcessed :: nat
  parseFailures :: nat
  embeddingFailures :: nat
  writeFailures :: nat
  successCount :: nat
  accepted :: "string list list"
  csvWriter :: csv_writer

text \<open>
  The scanner loop. Each line comes with the outcome of the POST that \<open>GetEmbedding\<close>
  sends for it. After a parse failure there is no \<open>continue\<close>: the loop body goes on
  to \<open>GetEmbedding\<close> with the empty message. The per-line log lines are left out; the
  summary is the counters of the final state.
\<close>

fun embed_lines ::
  "nat option \<Rightarrow> (string \<times> ResponseData reply) list \<Rightarrow> embed_state \<Rightarrow> embed_state" where
  "embed_lines room [] st = st"
| "embed_lines room ((line, resp) # rest) st =
     (let (message, parsed) = extract_message line;
          st1 = st\<lparr>linesProcessed := linesProcessed st + 1\<rparr>;
          st2 = (if parsed then st1 else st1\<lparr>parseFailures := parseFailures st1 + 1\<rparr>)
      in case GetEmbedding message embeddingModel resp of
           Inl err \<Rightarrow>
             embed_lines room rest (st2\<lparr>embeddingFailures := embeddingFailures st2 + 1\<rparr>)
         | Inr embedding \<Rightarrow>
             (let strEmbedding = float64ToStringSlice embedding;
                  (ok, w) = csv_Write room strEmbedding (csvWriter st2)
              in if \<not> ok
                 then embed_lines room rest
                        (st2\<lparr>writeFailures := writeFailures st2 + 1, csvWriter := w\<rparr>)
                 else embed_lines room rest
                        (st2\<lparr>successCount := successCount st2 + 1,
                             accepted := accepted st2 @ [strEmbedding], csvWriter := w\<rparr>)))"

definition embed_init :: embed_state where
  "embed_init = \<lparr>linesProcessed = 0, parseFailures = 0, embeddingFailures = 0,
                  writeFailures = 0, successCount = 0, accepted = [], csvWriter = new_writer\<rparr>"

text \<open>
  How a call ends. \<open>log.Fatalf\<close> when the output file cannot be created or the input
  file cannot be opened. After the loop the summary is logged; then, when the scanner
  reports an error, \<open>log.Fatalf\<close> ends the process and the deferred
  \<open>csvWriter.Flush\<close> does not run, so the bytes still in the buffer never reach the
  file; otherwise the function returns nil and the deferred flush runs. \<open>input\<close> is
  \<open>None\<close> when the input file cannot be opened, and else the lines the scanner
  delivered, each with the outcome of its POST, and whether \<open>scanner.Err()\<close> is set.
\<close>

datatype embed_exit = FatalCreate | FatalOpen | FatalScanner embed_state | ReturnedNil embed_state

definition CreateEmbeddingFile ::
  "nat option \<Rightarrow> bool \<Rightarrow> ((string \<times> ResponseData reply) list \<times> bool) option \<Rightarrow> embed_exit" where
  "CreateEmbeddingFile room createOK input =
     (if \<not> createOK then FatalCreate
      else case input of
        None \<Rightarrow> FatalOpen
      | Some (lines, scanErr) \<Rightarrow>
          (let st = embed_lines room lines embed_init
           in if scanErr then FatalScanner st
              else ReturnedNil (st\<lparr>csvWriter := Flush room (csvWriter st)\<rparr>)))"

text \<open>The state when the process ends or the function returns, if the summary was
  logged; its counters are those of the summary.\<close>

definition summary :: "embed_exit \<Rightarrow> embed_state option" where
  "summary x = (case x of FatalScanner st \<Rightarrow> Some st | ReturnedNil st \<Rightarrow> Some st | _ \<Rightarrow> None)"

subsection \<open>Classifying the lines of an input\<close>

definition unparseable :: "string \<times> ResponseData reply \<Rightarrow> bool" where
  "unparseable x = (\<not> snd (extract_message (fst x)))"

definition embedded :: "string \<times> ResponseData reply \<Rightarrow> bool" where
  "embedded x = (\<not> isl (GetEmbedding (fst (extract_message (fst x))) embeddingModel (snd x)))"

definition row_of :: "string \<times> ResponseData reply \<Rightarrow> string list" where
  "row_of x =
     float64ToStringSlice (projr (GetEmbedding (fst (extract_message (fst x))) embeddingModel (snd x)))"

text \<open>The records handed to \<open>csvWriter.Write\<close>, in order: one for every line whose
  embedding succeeds.\<close>

definition embedded_rows :: "(string \<times> ResponseData reply) list \<Rightarrow> string list list" where
  "embedded_rows lines = map row_of (filter embedded lines)"

text \<open>The results of writing a sequence of records one after the other, and the
  writer after them.\<close>

fun csv_results :: "nat option \<Rightarrow> string list list \<Rightarrow> csv_writer \<Rightarrow> bool list" where
  "csv_results room [] w = []"
| "csv_results room (r # rs) w =
     fst (csv_Write room r w) # csv_results room rs (snd (csv_Write room r w))"

fun csv_run :: "nat option \<Rightarrow> string list list \<Rightarrow> csv_writer \<Rightarrow> csv_writer" where
  "csv_run room [] w = w"
| "csv_run room (r # rs) w = csv_run room rs (snd (csv_Write room r w))"

text \<open>P: the lines that fail to parse. E: the parseable lines whose embedding fails.
  W: the lines whose embedding succeeds and whose write fails.\<close>

definition count_unparseable :: "(string \<times> ResponseData reply) list \<Rightarrow> nat" where
  "count_unparseable lines = length (filter unparseable lines)"

definition count_embedding_failed :: "(string \<times> ResponseData reply) list \<Rightarrow> nat" where
  "count_embedding_failed lines =
     length (filter (\<lambda>x. \<not> unparseable x \<and> \<not> embedded x) lines)"

definition count_write_failed :: "nat option \<Rightarrow> (string \<times> ResponseData reply) list \<Rightarrow> nat" where
  "count_write_failed room lines =
     length (filter Not (csv_results room (embedded_rows lines) new_writer))"

text \<open>The records whose write succeeds, in the order of their lines.\<close>

definition rows_written :: "nat option \<Rightarrow> (string \<times> ResponseData reply) list \<Rightarrow> string list list" where
  "rows_written room lines =
     map fst (filter snd (zip (embedded_rows lines)
                              (csv_results room (embedded_rows lines) new_writer)))"

text \<open>No embedding comes back for a line that failed to parse.\<close>

definition unparsed_not_embedded :: "(string \<times> ResponseData reply) list \<Rightarrow> bool" where
  "unparsed_not_embedded lines = list_all (\<lambda>x. unparseable x \<longrightarrow> \<not> embedded x) lines"

subsection \<open>The loop, counter by counter\<close>

lemma embed_lines_linesProcessed:
  "linesProcessed (embed_lines room inp st) = linesProcessed st + length inp"
  by (induction inp arbitrary: st)
     (auto simp: Let_def split: prod.splits sum.splits)

lemma embed_lines_parseFailures:
  "parseFailures (embed_lines room inp st) = parseFailures st + length (filter unparseable inp)"
  by (induction inp arbitrary: st)
     (auto simp: Let_def unparseable_def split: prod.splits sum.splits)

lemma embed_lines_embeddingFailures:
  "embeddingFailures (embed_lines room inp st) =
     embeddingFailures st + length (filter (\<lambda>x. \<not> embedded x) inp)"
  by (induction inp arbitrary: st)
     (auto simp: Let_def embedded_def split: prod.splits sum.splits)

lemma embed_lines_successCount:
  "successCount (embed_lines room inp st) =
     successCount st + length (filter id (csv_results room (embedded_rows inp) (csvWriter st)))"
  by (induction inp arbitrary: st)
     (auto simp: Let_def embedded_rows_def embedded_def row_of_def split: prod.splits sum.splits)

lemma embed_lines_writeFailures:
  "writeFailures (embed_lines room inp st) =
     writeFailures st + length (filter Not (csv_results room (embedded_rows inp) (csvWriter st)))"
  by (induction inp arbitrary: st)
     (auto simp: Let_def embedded_rows_def embedded_def row_of_def split: prod.splits sum.splits)

lemma embed_lines_accepted:
  "accepted (embed_lines room inp st) =
     accepted st @ map fst (filter snd (zip (embedded_rows inp)
                                         (csv_results room (embedded_rows inp) (csvWriter st))))"
  by (induction inp arbitrary: st)
     (auto simp: Let_def embedded_rows_def embedded_def row_of_def split: prod.splits sum.splits)

lemma embed_lines_csvWriter:
  "csvWriter (embed_lines room inp st) = csv_run room (embedded_rows inp) (csvWriter st)"
  by (induction inp arbitrary: st)
     (auto simp: Let_def embedded_rows_def embedded_def row_of_def split: prod.splits sum.splits)

lemma length_csv_results: "length (csv_results room rs w) = length rs"
  by (induction rs arbitrary: w) simp_all

lemma filter_id_Not: "length (filter id bs) + length (filter Not bs) = length bs"
  by (induction bs) auto

lemma lines_partition:
  "unparsed_not_embedded inp \<Longrightarrow>
     length (embedded_rows inp) + count_unparseable inp + count_embedding_failed inp = length inp"
  by (induction inp)
     (auto simp: unparsed_not_embedded_def count_unparseable_def count_embedding_failed_def
        embedded_rows_def)

subsection \<open>The writer\<close>

lemma Flush_broken: "broken w \<Longrightarrow> Flush room w = w"
  by (simp add: Flush_def)

lemma Flush_ok:
  "\<not> broken (Flush room w) \<Longrightarrow>
     \<not> broken w \<and> pending (Flush room w) = [] \<and> onFile (Flush room w) = onFile w @ pending w"
  by (auto simp: Flush_def split: option.splits if_splits)

lemma bufio_write_broken: "broken w \<Longrightarrow> bufio_write room bs w = w"
  by (cases bs) simp_all

lemma bufio_write_fits:
  "\<not> broken w \<Longrightarrow> length (pending w) + length bs \<le> bufSize \<Longrightarrow>
     bufio_write room bs w = w\<lparr>pending := pending w @ bs\<rparr>"
  by (induction bs arbitrary: w) simp_all

lemma bufio_write_ok:
  "\<not> broken (bufio_write room bs w) \<Longrightarrow>
     \<not> broken w \<and>
     onFile (bufio_write room bs w) @ pending (bufio_write room bs w) = onFile w @ pending w @ bs"
proof (induction bs arbitrary: w)
  case Nil
  then show ?case by simp
next
  case (Cons b bs)
  have nb: "\<not> broken w" using Cons.prems by (auto split: if_splits)
  show ?case
  proof (cases "length (pending w) < bufSize")
    case True
    with nb Cons.prems Cons.IH [of "w\<lparr>pending := pending w @ [b]\<rparr>"] show ?thesis by simp
  next
    case False
    let ?w = "Flush room w"
    have nf: "\<not> broken ?w" using Cons.prems nb False by (auto simp: Let_def split: if_splits)
    from Flush_ok [OF nf] nb False Cons.prems Cons.IH [of "?w\<lparr>pending := pending ?w @ [b]\<rparr>"] nf
    show ?thesis by (simp add: Let_def)
  qed
qed

text \<open>On a file that takes no byte, a write that does not fit into the buffer
  fails.\<close>

lemma bufio_write_overflow:
  "\<not> broken w \<Longrightarrow> onFile w = [] \<Longrightarrow> length (pending w) \<le> bufSize \<Longrightarrow>
   bufSize < length (pending w) + length bs \<Longrightarrow> broken (bufio_write (Some 0) bs w)"
proof (induction bs arbitrary: w)
  case Nil
  then show ?case by simp
next
  case (Cons b bs)
  show ?case
  proof (cases "length (pending w) < bufSize")
    case True
    with Cons.prems Cons.IH [of "w\<lparr>pending := pending w @ [b]\<rparr>"] show ?thesis by simp
  next
    case False
    with Cons.prems have "pending w \<noteq> []" by (auto simp: bufSize_def)
    with Cons.prems False have "broken (Flush (Some 0) w)" by (simp add: Flush_def bufSize_def)
    with Cons.prems False show ?thesis by (simp add: Let_def)
  qed
qed

lemma csv_run_ok:
  "\<not> broken (csv_run room rs w) \<Longrightarrow>
     \<not> broken w \<and> list_all (\<lambda>b. b) (csv_results room rs w) \<and>
     onFile (csv_run room rs w) @ pending (csv_run room rs w) =
       onFile w @ pending w @ concat (map csv_bytes rs)"
proof (induction rs arbitrary: w)
  case Nil
  then show ?case by simp
next
  case (Cons r rs)
  let ?w = "snd (csv_Write room r w)"
  from Cons.prems have a: "\<not> broken (csv_run room rs ?w)" by simp
  from Cons.IH [OF a] have b: "\<not> broken ?w" and c: "list_all (\<lambda>b. b) (csv_results room rs ?w)"
    and d: "onFile (csv_run room rs ?w) @ pending (csv_run room rs ?w) =
       onFile ?w @ pending ?w @ concat (map csv_bytes rs)"
    by simp_all
  from b have e: "\<not> broken (bufio_write room (csv_bytes r) w)" by (simp add: csv_Write_def Let_def)
  from bufio_write_ok [OF e] b c d show ?case by (simp add: csv_Write_def Let_def)
qed

lemma zip_all_true:
  "length rs = length bs \<Longrightarrow> list_all (\<lambda>b. b) bs \<Longrightarrow> map fst (filter snd (zip rs bs)) = rs"
  by (induction rs bs rule: list_induct2) simp_all

lemma length_filter_zip:
  "length rs = length bs \<Longrightarrow> length (filter snd (zip rs bs)) = length (filter id bs)"
  by (induction rs bs rule: list_induct2) simp_all

lemma no_write_failed:
  "list_all (\<lambda>b. b) bs \<Longrightarrow> length (filter Not bs) = 0"
  by (induction bs) simp_all

lemma Sprintf_f_samples:
  "Sprintf_f (Finite 1) = ''1.000000''"
  "Sprintf_f (Finite (1 / 2)) = ''0.500000''"
  "Sprintf_f (Finite 0) = ''0.000000''"
  by (simp_all add: Sprintf_f_def millionths_def round_half_even_def pad6_def)

subsection \<open>The summary\<close>

text \<open>
  C1, as amended. For every input of N lines delivered by the scanner, of which P fail
  to parse, E of the parseable lines fail embedding and W of the embedded lines fail the
  CSV write, and in which no embedding comes back for a line that failed to parse, the
  summary reports successes = N - P - E - W; exactly that many records are accepted by
  the CSV writer, and they are the records of the written lines in the order of their
  source lines; when the function returns nil and no write to the file has failed, W is
  0 and the file holds exactly these records, one per line.
\<close>

theorem CreateEmbeddingFile_summary:
  assumes "unparsed_not_embedded lines"
  shows "\<exists>st. summary (CreateEmbeddingFile room True (Some (lines, scanErr))) = Some st \<and>
     linesProcessed st = length lines \<and>
     successCount st + count_unparseable lines + count_embedding_failed lines
       + count_write_failed room lines = length lines \<and>
     successCount st = length lines - count_unparseable lines - count_embedding_failed lines
       - count_write_failed room lines \<and>
     accepted st = rows_written room lines \<and>
     length (accepted st) = successCount st \<and>
     (\<not> scanErr \<and> \<not> broken (csvWriter st) \<longrightarrow>
        count_write_failed room lines = 0 \<and>
        onFile (csvWriter st) = concat (map csv_bytes (accepted st)))"
proof -
  let ?rows = "embedded_rows lines"
  let ?res = "csv_results room ?rows new_writer"
  let ?st0 = "embed_lines room lines embed_init"
  define st where "st = (if scanErr then ?st0 else ?st0\<lparr>csvWriter := Flush room (csvWriter ?st0)\<rparr>)"
  have s: "summary (CreateEmbeddingFile room True (Some (lines, scanErr))) = Some st"
    by (simp add: CreateEmbeddingFile_def summary_def Let_def st_def)
  have n: "linesProcessed st = length lines"
    by (simp add: embed_lines_linesProcessed embed_init_def st_def)
  have c: "successCount st = length (filter id ?res)"
    by (simp add: embed_lines_successCount embed_init_def st_def)
  have a: "accepted st = rows_written room lines"
    by (simp add: embed_lines_accepted embed_init_def rows_written_def st_def)
  have l: "length (accepted st) = successCount st"
    unfolding a c rows_written_def
    by (simp add: length_filter_zip length_csv_results)
  have sum: "successCount st + count_unparseable lines + count_embedding_failed lines
       + count_write_failed room lines = length lines"
    using lines_partition [OF assms] filter_id_Not [of ?res] c
    by (simp add: count_write_failed_def length_csv_results)
  have f: "\<not> scanErr \<and> \<not> broken (csvWriter st) \<longrightarrow>
      count_write_failed room lines = 0 \<and>
      onFile (csvWriter st) = concat (map csv_bytes (accepted st))"
  proof
    assume h: "\<not> scanErr \<and> \<not> broken (csvWriter st)"
    let ?w = "csv_run room ?rows new_writer"
    have w: "csvWriter st = Flush room ?w"
      using h by (simp add: embed_lines_csvWriter embed_init_def st_def)
    with h have "\<not> broken (Flush room ?w)" by simp
    from Flush_ok [OF this] have nb: "\<not> broken ?w"
      and fl: "onFile (Flush room ?w) = onFile ?w @ pending ?w" by simp_all
    from csv_run_ok [OF nb] have all: "list_all (\<lambda>b. b) ?res"
      and bytes: "onFile ?w @ pending ?w = concat (map csv_bytes ?rows)"
      by (simp_all add: new_writer_def)
    have "accepted st = ?rows"
      unfolding a rows_written_def
      by (rule zip_all_true) (simp_all add: length_csv_results all)
    with w fl bytes no_write_failed [OF all]
    show "count_write_failed room lines = 0 \<and>
      onFile (csvWriter st) = concat (map csv_bytes (accepted st))"
      by (simp add: count_write_failed_def)
  qed
  have d: "successCount st = length lines - count_unparseable lines - count_embedding_failed lines
       - count_write_failed room lines"
    using sum by linarith
  from s n sum d a l f show ?thesis by blast
qed

subsection \<open>An input with a line of every kind\<close>

definition sample_lines :: "(string \<times> ResponseData reply) list" where
  "sample_lines =
     [(''[09.09.23, 14:35:02] ~ john_doe: Hello world!'', Body [[Finite 1, Finite (1 / 2)]]),
      ('''', NoReply),
      (''second line'', Body []),
      (''third line'', Body [[Finite 0]])]"

lemma extract_message_samples:
  "extract_message '''' = ('''', False)"
  "extract_message ''[09.09.23, 14:35:02] ~ john_doe: Hello world!'' = (''[09.09.23,'', True)"
  "extract_message ''second line'' = (''second'', True)"
  "extract_message ''third line'' = (''third'', True)"
  "extract_message ''Hello'' = (''Hello'', True)"
  by (simp_all add: extract_message_def FindStringSubmatch_def match_here_def match_separator_def
      is_space_def non_space_def)

lemma sample_rows:
  "embedded_rows sample_lines = [[''1.000000'', ''0.500000''], [''0.000000'']]"
  by (simp add: embedded_rows_def sample_lines_def embedded_def row_of_def
      extract_message_samples GetEmbedding_def float64ToStringSlice_def Sprintf_f_samples)

lemma sample_results:
  "csv_results None [[''1.000000'', ''0.500000''], [''0.000000'']] new_writer = [True, True]"
  by (simp add: csv_Write_def csv_bytes_def new_writer_def bufio_write_fits bufSize_def Let_def)

theorem CreateEmbeddingFile_summary_witness:
  "unparsed_not_embedded sample_lines \<and>
   summary (CreateEmbeddingFile None True (Some (sample_lines, False))) =
     Some \<lparr>linesProcessed = 4, parseFailures = 1, embeddingFailures = 2, writeFailures = 0,
            successCount = 2, accepted = [[''1.000000'', ''0.500000''], [''0.000000'']],
            csvWriter = \<lparr>pending = [], broken = False,
                         onFile = ''1.000000,0.500000\<newline>0.000000\<newline>''\<rparr>\<rparr> \<and>
   count_unparseable sample_lines = 1 \<and> count_embedding_failed sample_lines = 1 \<and>
   count_write_failed None sample_lines = 0"
proof -
  have h: "unparsed_not_embedded sample_lines"
    by (simp add: unparsed_not_embedded_def sample_lines_def unparseable_def embedded_def
        extract_message_samples GetEmbedding_def)
  have r: "summary (CreateEmbeddingFile None True (Some (sample_lines, False))) =
     Some \<lparr>linesProcessed = 4, parseFailures = 1, embeddingFailures = 2, writeFailures = 0,
            successCount = 2, accepted = [[''1.000000'', ''0.500000''], [''0.000000'']],
            csvWriter = \<lparr>pending = [], broken = False,
                         onFile = ''1.000000,0.500000\<newline>0.000000\<newline>''\<rparr>\<rparr>"
    by (simp add: CreateEmbeddingFile_def summary_def sample_lines_def extract_message_samples
        GetEmbedding_def embed_init_def float64ToStringSlice_def Sprintf_f_samples
        csv_Write_def csv_bytes_def new_writer_def bufio_write_fits bufSize_def Flush_def Let_def)
  have c: "count_unparseable sample_lines = 1" "count_embedding_failed sample_lines = 1"
    by (simp_all add: count_unparseable_def count_embedding_failed_def
        sample_lines_def unparseable_def embedded_def extract_message_samples GetEmbedding_def)
  have w: "count_write_failed None sample_lines = 0"
    by (simp add: count_write_failed_def sample_rows sample_results del: csv_results.simps)
  from CreateEmbeddingFile_summary [OF h, of None False] h r c w show ?thesis by simp
qed

subsection \<open>A write that fails\<close>

text \<open>One line whose embedding has 1536 values, the dimension of the model.\<close>

definition big_line :: "(string \<times> ResponseData reply) list" where
  "big_line = [(''Hello'', Body [replicate 1536 (Finite 1)])]"

lemma length_csv_line_replicate:
  "length (csv_line (replicate (Suc n) s)) = Suc n * length s + n"
  by (induction n) simp_all

lemma big_row: "embedded_rows big_line = [replicate 1536 ''1.000000'']"
  by (simp add: embedded_rows_def big_line_def embedded_def row_of_def extract_message_samples
      GetEmbedding_def float64ToStringSlice_def Sprintf_f_samples)

lemma big_row_length: "length (csv_bytes (replicate 1536 ''1.000000'')) = 13824"
proof -
  have "replicate 1536 ''1.000000'' = replicate (Suc 1535) ''1.000000''" by simp
  then show ?thesis
    by (simp only: csv_bytes_def length_append length_csv_line_replicate) simp
qed

lemma big_row_refused: "csv_results (Some 0) [replicate 1536 ''1.000000''] new_writer = [False]"
proof -
  have "broken (bufio_write (Some 0) (csv_bytes (replicate 1536 ''1.000000'')) new_writer)"
    by (rule bufio_write_overflow) (simp_all add: new_writer_def bufSize_def big_row_length)
  then show ?thesis by (simp add: csv_Write_def Let_def)
qed

text \<open>
  C1 as stated leaves the write failures out. The record of a line whose embedding has
  1536 values has 13824 bytes, more than the buffer holds, so \<open>csvWriter.Write\<close> has
  to hand bytes to the file; on a file that takes none (a full disk) the write fails.
  Then N - P - E = 1, while the summary reports no success and one write failure.
\<close>

theorem CreateEmbeddingFile_write_failure_counterexample:
  "map_option successCount (summary (CreateEmbeddingFile (Some 0) True (Some (big_line, False))))
     = Some 0 \<and>
   map_option writeFailures (summary (CreateEmbeddingFile (Some 0) True (Some (big_line, False))))
     = Some 1 \<and>
   length big_line - count_unparseable big_line - count_embedding_failed big_line = 1"
proof -
  have s: "successCount (embed_lines (Some 0) big_line embed_init) = 0"
    by (simp add: embed_lines_successCount big_row embed_init_def big_row_refused
        del: csv_results.simps embed_lines.simps)
  have w: "writeFailures (embed_lines (Some 0) big_line embed_init) = 1"
    by (simp add: embed_lines_writeFailures big_row embed_init_def big_row_refused
        del: csv_results.simps embed_lines.simps)
  have c: "count_unparseable big_line = 0" "count_embedding_failed big_line = 0"
    by (simp_all add: count_unparseable_def count_embedding_failed_def big_line_def
        unparseable_def embedded_def extract_message_samples GetEmbedding_def)
  from s w c show ?thesis
    by (simp add: CreateEmbeddingFile_def summary_def Let_def big_line_def
        del: embed_lines.simps)
qed

text \<open>When the scanner ends with an error, the rows of the sample input are counted
  and accepted, and none of their bytes is on the file.\<close>

lemma CreateEmbeddingFile_scanner_error_sample:
  "map_option (\<lambda>st. (successCount st, onFile (csvWriter st)))
     (summary (CreateEmbeddingFile None True (Some (sample_lines, True)))) = Some (2, [])"
  by (simp add: CreateEmbeddingFile_def summary_def sample_lines_def extract_message_samples
      GetEmbedding_def embed_init_def float64ToStringSlice_def Sprintf_f_samples
      csv_Write_def csv_bytes_def new_writer_def bufio_write_fits bufSize_def Let_def)

text \<open>Without the hypothesis on unparseable lines: a line that fails to parse is
  counted as a parse failure, and when the request sent for its empty message brings an
  embedding back, its row is accepted and it is counted as a success as well.\<close>

lemma embed_lines_unparseable_line_embedded:
  "map_option (\<lambda>st. (parseFailures st, successCount st, accepted st))
     (summary (CreateEmbeddingFile None True (Some ([('''', Body [[Finite 1]])], False)))) =
   Some (1, 1, [[''1.000000'']])"
  by (simp add: CreateEmbeddingFile_def summary_def extract_message_samples
      GetEmbedding_def embed_init_def float64ToStringSlice_def Sprintf_f_samples
      csv_Write_def csv_bytes_def new_writer_def bufio_write_fits bufSize_def Let_def)

section \<open>From the embed pass to the upsert pass\<close>

subsection \<open>The fields of a row\<close>




subsection \<open>What %f writes\<close>





text \<open>Every field that \<open>%f\<close> writes consists of digits, a point, a sign and the
  letters of \<open>Inf\<close> and \<open>NaN\<close>, and is not empty: it holds no comma, quote, carriage
  return or newline and does not begin with a space, so \<open>csv.Writer\<close> writes it
  without quotes.\<close>

lemma digit_plain: "k < 10 \<Longrightarrow> ''0123456789'' ! k \<in> set ''0123456789''"
  by (rule nth_mem) simp

lemma sprintf_d_digits: "set (sprintf_d n) \<subseteq> set ''0123456789''"
proof -
  define D where "D = set ''0123456789''"
  have d: "''0123456789'' ! k \<in> D" if "k < 10" for k
    using digit_plain [OF that] by (simp only: D_def)
  have "set (sprintf_d n) \<subseteq> D"
  proof (induction n rule: sprintf_d.induct)
    case (1 n)
    show ?case
    proof (cases "n < 10")
      case True
      have "set (sprintf_d n) = {''0123456789'' ! n}"
        using True by (subst sprintf_d.simps) simp
      with d [OF True] show ?thesis by simp
    next
      case False
      have "set (sprintf_d n) = set (sprintf_d (n div 10)) \<union> {''0123456789'' ! (n mod 10)}"
        using False by (subst sprintf_d.simps) simp
      moreover have "''0123456789'' ! (n mod 10) \<in> D" by (rule d) simp
      ultimately show ?thesis using 1 [OF False] by simp
    qed
  qed
  then show ?thesis by (simp only: D_def)
qed

lemma pad6_digits: "set s \<subseteq> set ''0123456789'' \<Longrightarrow> set (pad6 s) \<subseteq> set ''0123456789''"
proof -
  define D where "D = set ''0123456789''"
  assume "set s \<subseteq> set ''0123456789''"
  then have a: "set s \<subseteq> D" by (simp only: D_def)
  have "set (drop (length s) ''000000'') \<subseteq> set ''000000''" by (rule set_drop_subset)
  moreover have "set ''000000'' \<subseteq> D" by (simp add: D_def)
  ultimately have "set (pad6 s) \<subseteq> D" using a by (simp only: pad6_def set_append) blast
  then show ?thesis by (simp only: D_def)
qed

lemma digits_plain: "set ''0123456789'' \<subseteq> set ''0123456789.-+InfNa''"
  by simp

lemma Sprintf_f_plain: "set (Sprintf_f f) \<subseteq> set ''0123456789.-+InfNa'' \<and> Sprintf_f f \<noteq> []"
proof (cases f)
  case (Finite x)
  define P where "P = set ''0123456789.-+InfNa''"
  have a: "set (sprintf_d n) \<subseteq> P" for n
    using sprintf_d_digits [of n] digits_plain unfolding P_def by (rule order_trans)
  have b: "set (pad6 (sprintf_d n)) \<subseteq> P" for n
    using pad6_digits [OF sprintf_d_digits, of n] digits_plain unfolding P_def by (rule order_trans)
  define sign :: string where "sign = (if x < 0 then ''-'' else '''')"
  have c: "set sign \<subseteq> P" "set ''.'' \<subseteq> P" by (auto simp: sign_def P_def)
  have e: "Sprintf_f f = sign @ sprintf_d (millionths x div 1000000)
      @ ''.'' @ pad6 (sprintf_d (millionths x mod 1000000))"
    using Finite by (simp only: Sprintf_f_def float64.case sign_def)
  have "set (Sprintf_f f) \<subseteq> P"
    unfolding e set_append Un_subset_iff
    using a [of "millionths x div 1000000"] b [of "millionths x mod 1000000"] c by blast
  moreover have "Sprintf_f f \<noteq> []" unfolding e by (simp del: sprintf_d.simps)
  ultimately show ?thesis unfolding P_def by (rule conjI)
next
  case PosInf
  then show ?thesis by (simp add: Sprintf_f_def)
next
  case NegInf
  then show ?thesis by (simp add: Sprintf_f_def)
next
  case NaN
  then show ?thesis by (simp add: Sprintf_f_def)
qed

subsection \<open>How far %f moves a value\<close>




subsection \<open>The round trip\<close>






section \<open>Package main: the query path\<close>

text \<open>\<open>QueryResponse\<close>, with the two fields of the anonymous struct \<open>SparseValues\<close>
  side by side. A field that is absent from the JSON is left at its zero value: the
  empty list.\<close>

record QueryResponse =
  ID :: string
  Score :: float64
  Values :: "float64 list"
  SparseIndices :: "int list"
  SparseValues :: "float64 list"
  Metadata :: "(string \<times> json) list"

text \<open>An entry of the map \<open>Vectors\<close> of a fetch response: its \<open>ID\<close> and its
  \<open>Values\<close>.\<close>

type_synonym vectorData = "string \<times> float64 list"

text \<open>The network calls of the query path: the POST of \<open>GetEmbedding\<close> with the text
  it puts into the body and the model, the POST to \<open>query\<close> with the vector and \<open>topK\<close>,
  and the GET on \<open>vectors/fetch?ids=\<close> with the identifier.\<close>

datatype net_call =
    EmbeddingCall string string
  | QueryCall "float64 list" nat
  | FetchCall string

datatype main_log =
    LogEmbeddingError error         \<comment> \<open>\<open>"Error embedding query message: %v"\<close>\<close>
  | LogSendError                    \<comment> \<open>\<open>"Error sending request: %v"\<close>\<close>
  | LogDecodeBodyError              \<comment> \<open>\<open>"Error decoding response body: %v"\<close>\<close>
  | LogFetchNewRequestError         \<comment> \<open>\<open>"Error creating new request to fetch vector: %v"\<close>\<close>
  | LogFetchHTTPError               \<comment> \<open>\<open>"Error in HTTP request to fetch vector: %v"\<close>\<close>
  | LogFetchDecodeError             \<comment> \<open>\<open>"Error decoding fetch response: %v"\<close>\<close>
  | LogFetched string "float64 list" \<comment> \<open>\<open>"Fetched vector content for ID %s: %v"\<close>\<close>
  | LogNoVectorContent string       \<comment> \<open>\<open>"No vector content found for ID %s"\<close>\<close>
  | LogReadInputError               \<comment> \<open>\<open>"Error reading user input: %v"\<close>\<close>
  | LogQueryError error             \<comment> \<open>\<open>"Error querying Pinecone: %v"\<close>\<close>
  | LogCreateFetchError             \<comment> \<open>\<open>"Error creating fetch request: %v"\<close>\<close>
  | LogAttemptFetch string          \<comment> \<open>\<open>"Attempting to fetch vector content for ID %s"\<close>\<close>
  | LogSendFetchError               \<comment> \<open>\<open>"Error sending fetch request: %v"\<close>\<close>

text \<open>
  The world outside the process: for each of the three endpoints the outcomes of the
  exchanges still to come, in the order in which the calls will be made, the calls
  issued so far and the lines written to the log so far. A call made when no outcome is
  left fails in the transport. What \<open>fmt.Println\<close> writes to standard output is not
  recorded.
\<close>

record world =
  embedReplies :: "ResponseData reply list"
  queryReplies :: "QueryResponse list reply list"
  fetchReplies :: "(string \<rightharpoonup> vectorData) reply list"
  issued :: "net_call list"
  logged :: "main_log list"

definition log_line :: "main_log \<Rightarrow> world \<Rightarrow> world" where
  "log_line l w = w\<lparr>logged := logged w @ [l]\<rparr>"

definition post_embedding :: "string \<Rightarrow> string \<Rightarrow> world \<Rightarrow> ResponseData reply \<times> world" where
  "post_embedding text model w =
     (case embedReplies w of
        [] \<Rightarrow> (NoReply, w\<lparr>issued := issued w @ [EmbeddingCall (sanitize text) model]\<rparr>)
      | r # rs \<Rightarrow>
          (r, w\<lparr>embedReplies := rs, issued := issued w @ [EmbeddingCall (sanitize text) model]\<rparr>))"

definition post_query :: "float64 list \<Rightarrow> world \<Rightarrow> QueryResponse list reply \<times> world" where
  "post_query queryVector w =
     (case queryReplies w of
        [] \<Rightarrow> (NoReply, w\<lparr>issued := issued w @ [QueryCall queryVector topK]\<rparr>)
      | r # rs \<Rightarrow> (r, w\<lparr>queryReplies := rs, issued := issued w @ [QueryCall queryVector topK]\<rparr>))"

definition get_fetch :: "string \<Rightarrow> world \<Rightarrow> (string \<rightharpoonup> vectorData) reply \<times> world" where
  "get_fetch matchID w =
     (case fetchReplies w of
        [] \<Rightarrow> (NoReply, w\<lparr>issued := issued w @ [FetchCall matchID]\<rparr>)
      | r # rs \<Rightarrow> (r, w\<lparr>fetchReplies := rs, issued := issued w @ [FetchCall matchID]\<rparr>))"

definition queryURL :: "string \<Rightarrow> string \<Rightarrow> string" where
  "queryURL indexName pcProjectID =
     ''https://'' @ indexName @ ''-'' @ pcProjectID @ ''.svc.'' @ pcEnv @ pcAPIURL @ ''query''"

text \<open>The fetch URL; \<open>queryPinecone\<close> builds it with \<open>Sprintf\<close> and the loop by
  concatenation, to the same string.\<close>

definition fetchURL :: "string \<Rightarrow> string \<Rightarrow> string \<Rightarrow> string" where
  "fetchURL indexName pcProjectID matchID =
     ''https://'' @ indexName @ ''-'' @ pcProjectID @ ''.svc.'' @ pcEnv @ pcAPIURL
       @ ''vectors/fetch?ids='' @ matchID"

subsection \<open>queryPinecone\<close>

text \<open>
  The loop \<open>for _, match := range matches\<close> of \<open>queryPinecone\<close>. The loop variable
  \<open>match\<close> is a copy of the slice element; the assignment \<open>match.Values =
  vectorData.Values\<close> changes that copy (\<open>match'\<close> below), which nothing reads
  afterwards, and the slice \<open>matches\<close> stays as it was decoded. The result is the
  error that ends the function early, if any.
\<close>

fun fetch_matches ::
  "(string \<Rightarrow> bool) \<Rightarrow> string \<Rightarrow> string \<Rightarrow> QueryResponse list \<Rightarrow> world \<Rightarrow> error option \<times> world" where
  "fetch_matches newRequestOK indexName pcProjectID [] w = (None, w)"
| "fetch_matches newRequestOK indexName pcProjectID (match # rest) w =
     (if \<not> newRequestOK (fetchURL indexName pcProjectID (ID match))
      then (Some RequestError, log_line LogFetchNewRequestError w)
      else
        (let (fetchResp, w1) = get_fetch (ID match) w in
         case fetchResp of
           NoReply \<Rightarrow> (Some TransportError, log_line LogFetchHTTPError w1)
         | BadBody \<Rightarrow> (Some DecodeError, log_line LogFetchDecodeError w1)
         | Body vectors \<Rightarrow>
             (case vectors (ID match) of
                Some vectorData \<Rightarrow>
                  (let match' = match\<lparr>Values := snd vectorData\<rparr>
                   in fetch_matches newRequestOK indexName pcProjectID rest
                        (log_line (LogFetched (fst vectorData) (snd vectorData)) w1))
              | None \<Rightarrow>
                  fetch_matches newRequestOK indexName pcProjectID rest
                    (log_line (LogNoVectorContent (ID match)) w1))))"

text \<open>
  \<open>queryPinecone indexName queryMessage pcProjectID\<close>. \<open>json.Marshal\<close> of the query
  fails only on a vector with a NaN or an infinity. The two early returns that only
  print to standard output write no log line.
\<close>

definition queryPinecone ::
  "(string \<Rightarrow> bool) \<Rightarrow> string \<Rightarrow> string \<Rightarrow> string \<Rightarrow> world \<Rightarrow> (error + QueryResponse list) \<times> world" where
  "queryPinecone newRequestOK indexName queryMessage pcProjectID w =
     (let (embResp, w1) = post_embedding queryMessage embeddingModel w in
      case GetEmbedding queryMessage embeddingModel embResp of
        Inl err \<Rightarrow> (Inl (EmbeddingQueryError err), log_line (LogEmbeddingError err) w1)
      | Inr queryVector \<Rightarrow>
          if \<not> list_all is_finite queryVector then (Inl MarshalError, w1)
          else if \<not> newRequestOK (queryURL indexName pcProjectID) then (Inl RequestError, w1)
          else
            (let (resp, w2) = post_query queryVector w1 in
             case resp of
               NoReply \<Rightarrow> (Inl TransportError, log_line LogSendError w2)
             | BadBody \<Rightarrow> (Inl DecodeError, log_line LogDecodeBodyError w2)
             | Body matches \<Rightarrow>
                 (case fetch_matches newRequestOK indexName pcProjectID matches w2 of
                    (Some err, w3) \<Rightarrow> (Inl err, w3)
                  | (None, w3) \<Rightarrow> (Inr matches, w3))))"

subsection \<open>promptUserAndQueryPinecone\<close>

text \<open>
  \<open>strings.TrimSpace\<close> takes away the leading and the trailing white space, where
  white space is what \<open>unicode.IsSpace\<close> says: tab, newline, vertical tab, form feed,
  carriage return, space, U+0085, U+00A0, U+1680, U+2000 to U+200A, U+2028, U+2029,
  U+202F, U+205F and U+3000. A string is its bytes, so these are their UTF-8
  encodings. Decoding from the front finds one of them exactly when its bytes are a
  prefix of the string, and decoding from the back exactly when they are a suffix (the
  bytes before a lead byte do not matter); a byte sequence that is not valid UTF-8
  decodes to U+FFFD, which is no white space.
\<close>

definition space_runes :: "string list" where
  "space_runes =
     [[CHR 0x09], [CHR 0x0A], [CHR 0x0B], [CHR 0x0C], [CHR 0x0D], [CHR 0x20],
      [CHR 0xC2, CHR 0x85], [CHR 0xC2, CHR 0xA0],
      [CHR 0xE1, CHR 0x9A, CHR 0x80],
      [CHR 0xE2, CHR 0x80, CHR 0x80], [CHR 0xE2, CHR 0x80, CHR 0x81],
      [CHR 0xE2, CHR 0x80, CHR 0x82], [CHR 0xE2, CHR 0x80, CHR 0x83],
      [CHR 0xE2, CHR 0x80, CHR 0x84], [CHR 0xE2, CHR 0x80, CHR 0x85],
      [CHR 0xE2, CHR 0x80, CHR 0x86], [CHR 0xE2, CHR 0x80, CHR 0x87],
      [CHR 0xE2, CHR 0x80, CHR 0x88], [CHR 0xE2, CHR 0x80, CHR 0x89],
      [CHR 0xE2, CHR 0x80, CHR 0x8A],
      [CHR 0xE2, CHR 0x80, CHR 0xA8], [CHR 0xE2, CHR 0x80, CHR 0xA9],
      [CHR 0xE2, CHR 0x80, CHR 0xAF],
      [CHR 0xE2, CHR 0x81, CHR 0x9F],
      [CHR 0xE3, CHR 0x80, CHR 0x80]]"

text \<open>Taking away, as long as there is one, a member of \<open>runes\<close> from the front.\<close>

function trim_prefix :: "string list \<Rightarrow> string \<Rightarrow> string" where
  "trim_prefix runes s =
     (case find (\<lambda>e. e \<noteq> [] \<and> take (length e) s = e) runes of
        None \<Rightarrow> s
      | Some e \<Rightarrow> trim_prefix runes (drop (length e) s))"
  by pat_completeness auto
termination
proof (relation "measure (\<lambda>(runes, s). length s)")
  show "wf (measure (\<lambda>(runes, s). length s))" by simp
next
  fix runes :: "string list" and s e :: string
  assume "find (\<lambda>e. e \<noteq> [] \<and> take (length e) s = e) runes = Some e"
  then have "e \<noteq> []" and "take (length e) s = e" by (auto simp: find_Some_iff)
  then have "s \<noteq> []" by auto
  with \<open>e \<noteq> []\<close> show "((runes, drop (length e) s), (runes, s)) \<in> measure (\<lambda>(runes, s). length s)"
    by simp
qed

declare trim_prefix.simps [simp del]

definition TrimSpace :: "string \<Rightarrow> string" where
  "TrimSpace s = rev (trim_prefix (map rev space_runes) (rev (trim_prefix space_runes s)))"

text \<open>
  \<open>strings.ToLower\<close> on ASCII text: the letters A to Z are lowered. On text with bytes
  outside ASCII Go lowers the other upper-case letters too; only U+0130 and U+212A are
  lowered to ASCII letters, to i and k, so a text is lowered to \<open>end\<close> exactly when it
  is \<open>end\<close> in ASCII letters of either case, as here.
\<close>

definition lower_char :: "char \<Rightarrow> char" where
  "lower_char c =
     (case map_of (zip ''ABCDEFGHIJKLMNOPQRSTUVWXYZ'' ''abcdefghijklmnopqrstuvwxyz'') c of
        Some l \<Rightarrow> l
      | None \<Rightarrow> c)"

definition ToLower :: "string \<Rightarrow> string" where
  "ToLower s = map lower_char s"

text \<open>
  The results of the successive \<open>reader.ReadString('\n')\<close> calls on a standard input
  with the given content: every line that ends in a newline comes back with its
  newline and no error; what is left at the end, a last line without newline or
  nothing, comes back with \<open>io.EOF\<close>.
\<close>

fun read_strings :: "string \<Rightarrow> string \<Rightarrow> (error + string) list" where
  "read_strings sofar [] = [Inl EOF]"
| "read_strings sofar (c # cs) =
     (if c = CHR 0x0A then Inr (sofar @ [c]) # read_strings [] cs
      else read_strings (sofar @ [c]) cs)"

definition reads_of :: "string \<Rightarrow> (error + string) list" where
  "reads_of stdin = read_strings [] stdin"

text \<open>
  The loop \<open>for _, match := range queryResponse\<close> of the prompt loop: the second fetch
  of every match. Each of its three error branches returns from
  \<open>promptUserAndQueryPinecone\<close>.
\<close>

fun display_matches ::
  "(string \<Rightarrow> bool) \<Rightarrow> string \<Rightarrow> string \<Rightarrow> QueryResponse list \<Rightarrow> world \<Rightarrow> error option \<times> world" where
  "display_matches newRequestOK indexName pcProjectID [] w = (None, w)"
| "display_matches newRequestOK indexName pcProjectID (match # rest) w =
     (if \<not> newRequestOK (fetchURL indexName pcProjectID (ID match))
      then (Some RequestError, log_line LogCreateFetchError w)
      else
        (let (fetchResp, w1) = get_fetch (ID match) (log_line (LogAttemptFetch (ID match)) w) in
         case fetchResp of
           NoReply \<Rightarrow> (Some TransportError, log_line LogSendFetchError w1)
         | BadBody \<Rightarrow> (Some DecodeError, log_line LogFetchDecodeError w1)
         | Body vectors \<Rightarrow>
             (case vectors (ID match) of
                Some vectorData \<Rightarrow>
                  (let match' = match\<lparr>Values := snd vectorData\<rparr>
                   in display_matches newRequestOK indexName pcProjectID rest
                        (log_line (LogFetched (fst vectorData) (snd vectorData)) w1))
              | None \<Rightarrow>
                  display_matches newRequestOK indexName pcProjectID rest
                    (log_line (LogNoVectorContent (ID match)) w1))))"

text \<open>
  \<open>promptUserAndQueryPinecone indexName pcProjectID\<close> on the results of the successive
  \<open>reader.ReadString('\n')\<close> calls: an error, or the text read with its newline.
  Standard input is finite, so after the last result the next read returns an error
  (end of file) and the loop ends: the recursion is on the list of reads. The result is
  the returned error (\<open>None\<close> is \<open>nil\<close>) and the world at the return.
\<close>

fun promptUserAndQueryPinecone ::
  "(string \<Rightarrow> bool) \<Rightarrow> string \<Rightarrow> string \<Rightarrow> (error + string) list \<Rightarrow> world \<Rightarrow> error option \<times> world" where
  "promptUserAndQueryPinecone newRequestOK indexName pcProjectID [] w =
     (Some ReadError, log_line LogReadInputError w)"
| "promptUserAndQueryPinecone newRequestOK indexName pcProjectID (Inl err # reads) w =
     (Some err, log_line LogReadInputError w)"
| "promptUserAndQueryPinecone newRequestOK indexName pcProjectID (Inr text # reads) w =
     (let queryMessage = TrimSpace text in
      if ToLower queryMessage = ''end'' then (None, w)
      else
        (case queryPinecone newRequestOK indexName queryMessage pcProjectID w of
           (Inl err, w1) \<Rightarrow>
             promptUserAndQueryPinecone newRequestOK indexName pcProjectID reads
               (log_line (LogQueryError err) w1)
         | (Inr queryResponse, w1) \<Rightarrow>
             (case display_matches newRequestOK indexName pcProjectID queryResponse w1 of
                (Some err, w2) \<Rightarrow> (Some err, w2)
              | (None, w2) \<Rightarrow>
                  promptUserAndQueryPinecone newRequestOK indexName pcProjectID reads w2)))"

subsection \<open>Sample data\<close>

text \<open>One match as the query endpoint returns it (no values), the stored vector under
  its identifier, a world in which the embedding and the query succeed, and a user who
  types \<open>hello\<close> and then \<open>end\<close>.\<close>

definition sample_match :: QueryResponse where
  "sample_match = \<lparr>ID = ''vector_id_1'', Score = Finite 1, Values = [], SparseIndices = [],
                     SparseValues = [], Metadata = []\<rparr>"

definition sample_vectors :: "string \<rightharpoonup> vectorData" where
  "sample_vectors = Map.empty(''vector_id_1'' \<mapsto> (''vector_id_1'', [Finite (1 / 2)]))"

definition sample_world :: "(string \<rightharpoonup> vectorData) reply list \<Rightarrow> world" where
  "sample_world fetches =
     \<lparr>embedReplies = [Body [[Finite 1]]], queryReplies = [Body [sample_match]],
      fetchReplies = fetches, issued = [], logged = []\<rparr>"

lemma sanitize_hello: "sanitize ''hello'' = ''hello''"
  by (simp add: sanitize_def)

definition hello_then_end :: "(error + string) list" where
  "hello_then_end = [Inr ''hello\<newline>'', Inr ''end\<newline>'']"

text \<open>White space is trimmed whether it is ASCII or not.\<close>

lemma TrimSpace_samples:
  "TrimSpace ''hello\<newline>'' = ''hello''"
  "TrimSpace ''end\<newline>'' = ''end''"
  "TrimSpace ''end'' = ''end''"
  "TrimSpace ([CHR 0xC2, CHR 0xA0] @ ''EnD'' @ [CHR 0xE3, CHR 0x80, CHR 0x80, CHR 0x0D, CHR 0x0A]) = ''EnD''"
  by (simp_all add: TrimSpace_def space_runes_def trim_prefix.simps)

lemma trim_samples:
  "TrimSpace ''hello\<newline>'' = ''hello''"
  "TrimSpace ''end\<newline>'' = ''end''"
  "ToLower ''hello'' = ''hello''"
  "ToLower ''end'' = ''end''"
  by (simp_all add: TrimSpace_samples ToLower_def lower_char_def)

subsection \<open>What queryPinecone returns\<close>

text \<open>
  C3. The claim: in the matches returned to the caller, the values of a match are filled
  with the fetched values when the fetch response contains its identifier. On the code
  the fetch is made and logged, and the match comes back with the values it was decoded
  with: the assignment went to the copy in the loop variable.
\<close>

theorem queryPinecone_values_not_filled:
  "fst (queryPinecone (\<lambda>url. True) ''whatsapp-chat'' ''hello'' ''abc1234''
          (sample_world [Body sample_vectors])) = Inr [sample_match] \<and>
   Values sample_match = [] \<and>
   sample_vectors (ID sample_match) = Some (''vector_id_1'', [Finite (1 / 2)]) \<and>
   issued (snd (queryPinecone (\<lambda>url. True) ''whatsapp-chat'' ''hello'' ''abc1234''
          (sample_world [Body sample_vectors]))) =
     [EmbeddingCall ''hello'' embeddingModel, QueryCall [Finite 1] 1, FetchCall ''vector_id_1''] \<and>
   logged (snd (queryPinecone (\<lambda>url. True) ''whatsapp-chat'' ''hello'' ''abc1234''
          (sample_world [Body sample_vectors]))) =
     [LogFetched ''vector_id_1'' [Finite (1 / 2)]]"
  by (simp add: queryPinecone_def sample_world_def sample_match_def sample_vectors_def
      post_embedding_def post_query_def get_fetch_def GetEmbedding_def is_finite_def
      log_line_def topK_def sanitize_hello)

text \<open>Whenever \<open>queryPinecone\<close> succeeds, its result is the list of matches of the
  query response as decoded.\<close>

lemma queryPinecone_returns_decoded_matches:
  assumes "fst (queryPinecone ok idx q pid w) = Inr ms"
  shows "\<exists>rs. queryReplies w = Body ms # rs"
  using assms
  by (auto simp: queryPinecone_def post_embedding_def post_query_def log_line_def Let_def
      split: prod.splits sum.splits reply.splits if_splits list.splits option.splits)

subsection \<open>Leaving the loop\<close>

text \<open>
  C9, as amended. When \<open>ReadString\<close> returns without error an input that, after
  \<open>TrimSpace\<close>, is \<open>end\<close> in any letter case, the loop returns nil at once: the world
  is the one at the read, so no embedding, query or fetch call is issued and nothing
  is logged. The world \<open>w\<close> is arbitrary, so this holds at every turn of the loop.
\<close>

theorem promptUserAndQueryPinecone_end:
  assumes "ToLower (TrimSpace text) = ''end''"
  shows "promptUserAndQueryPinecone ok idx pid (Inr text # reads) w = (None, w)"
  using assms by simp

theorem promptUserAndQueryPinecone_end_witness:
  "ToLower (TrimSpace ([CHR 0xC2, CHR 0xA0] @ ''EnD'' @ [CHR 0xE3, CHR 0x80, CHR 0x80, CHR 0x0D, CHR 0x0A]))
     = ''end'' \<and>
   promptUserAndQueryPinecone (\<lambda>url. True) ''whatsapp-chat'' ''abc1234''
     (Inr ([CHR 0xC2, CHR 0xA0] @ ''EnD'' @ [CHR 0xE3, CHR 0x80, CHR 0x80, CHR 0x0D, CHR 0x0A])
        # reads_of ''hello'')
     (sample_world []) =
   (None, sample_world [])"
proof -
  have h: "ToLower (TrimSpace ([CHR 0xC2, CHR 0xA0] @ ''EnD'' @ [CHR 0xE3, CHR 0x80, CHR 0x80, CHR 0x0D, CHR 0x0A]))
     = ''end''"
    by (simp only: TrimSpace_samples) (simp add: ToLower_def lower_char_def)
  from promptUserAndQueryPinecone_end [OF h] h show ?thesis by blast
qed

text \<open>
  C9 as stated covers every input that is \<open>end\<close> after trimming. When standard input
  ends right after \<open>end\<close>, with no newline, \<open>ReadString\<close> returns the text together
  with \<open>io.EOF\<close>; the loop logs the error and returns it, not nil.
\<close>

theorem promptUserAndQueryPinecone_end_eof_counterexample:
  "ToLower (TrimSpace ''end'') = ''end'' \<and>
   promptUserAndQueryPinecone (\<lambda>url. True) ''whatsapp-chat'' ''abc1234'' (reads_of ''end'')
     (sample_world []) =
   (Some EOF, log_line LogReadInputError (sample_world []))"
  by (simp add: reads_of_def TrimSpace_samples ToLower_def lower_char_def)

text \<open>With the newline the same input ends the loop with nil.\<close>

lemma promptUserAndQueryPinecone_end_newline:
  "promptUserAndQueryPinecone (\<lambda>url. True) ''whatsapp-chat'' ''abc1234'' (reads_of ''end\<newline>'')
     (sample_world []) =
   (None, sample_world [])"
  by (simp add: reads_of_def TrimSpace_samples ToLower_def lower_char_def)

subsection \<open>Failures of the fetch rounds\<close>

text \<open>The outcome that the \<open>i\<close>-th coming call of an endpoint will get.\<close>

definition reply_at :: "'a reply list \<Rightarrow> nat \<Rightarrow> 'a reply" where
  "reply_at rs i = (if i < length rs then rs ! i else NoReply)"

text \<open>The fetch of a match fails: the request cannot be built, the transport fails,
  or the body cannot be decoded.\<close>

definition fetch_fails ::
  "(string \<Rightarrow> bool) \<Rightarrow> string \<Rightarrow> string \<Rightarrow> QueryResponse \<Rightarrow> (string \<rightharpoonup> vectorData) reply \<Rightarrow> bool" where
  "fetch_fails newRequestOK indexName pcProjectID match r =
     (\<not> newRequestOK (fetchURL indexName pcProjectID (ID match)) \<or> r = NoReply \<or> r = BadBody)"

text \<open>\<open>queryPinecone\<close> fails: the embedding fails, the query cannot be marshalled,
  built, sent or decoded, or the fetch of one of its matches fails.\<close>

definition query_round_fails ::
  "(string \<Rightarrow> bool) \<Rightarrow> string \<Rightarrow> string \<Rightarrow> string \<Rightarrow> world \<Rightarrow> bool" where
  "query_round_fails newRequestOK indexName queryMessage pcProjectID w =
     (case GetEmbedding queryMessage embeddingModel (reply_at (embedReplies w) 0) of
        Inl err \<Rightarrow> True
      | Inr queryVector \<Rightarrow>
          \<not> list_all is_finite queryVector \<or> \<not> newRequestOK (queryURL indexName pcProjectID) \<or>
          (case reply_at (queryReplies w) 0 of
             Body matches \<Rightarrow>
               (\<exists>i<length matches.
                  fetch_fails newRequestOK indexName pcProjectID (matches ! i)
                    (reply_at (fetchReplies w) i))
           | _ \<Rightarrow> True))"

lemma reply_at_simps [simp]:
  "reply_at [] i = NoReply"
  "reply_at (r # rs) 0 = r"
  "reply_at (r # rs) (Suc i) = reply_at rs i"
  by (simp_all add: reply_at_def)

lemma ex_less_Suc_shift: "(\<exists>i<Suc n. P i) \<longleftrightarrow> P 0 \<or> (\<exists>i<n. P (Suc i))"
  by (metis less_Suc_eq_0_disj)

lemma get_fetch_world:
  "fst (get_fetch mid w) = reply_at (fetchReplies w) 0"
  "fetchReplies (snd (get_fetch mid w)) = tl (fetchReplies w)"
  "embedReplies (snd (get_fetch mid w)) = embedReplies w"
  "queryReplies (snd (get_fetch mid w)) = queryReplies w"
  by (simp_all add: get_fetch_def split: list.splits)

lemma reply_at_tl: "reply_at (tl rs) i = reply_at rs (Suc i)"
  by (cases rs) simp_all

lemma log_line_world [simp]:
  "fetchReplies (log_line l w) = fetchReplies w"
  "embedReplies (log_line l w) = embedReplies w"
  "queryReplies (log_line l w) = queryReplies w"
  "issued (log_line l w) = issued w"
  "logged (log_line l w) = logged w @ [l]"
  by (simp_all add: log_line_def)

lemma display_matches_error_iff:
  "fst (display_matches ok idx pid ms w) \<noteq> None \<longleftrightarrow>
     (\<exists>i<length ms. fetch_fails ok idx pid (ms ! i) (reply_at (fetchReplies w) i))"
proof (induction ms arbitrary: w)
  case Nil
  show ?case by simp
next
  case (Cons m ms)
  obtain r w1 where g: "get_fetch (ID m) (log_line (LogAttemptFetch (ID m)) w) = (r, w1)"
    by (cases "get_fetch (ID m) (log_line (LogAttemptFetch (ID m)) w)")
  have r: "r = reply_at (fetchReplies w) 0" and w1: "fetchReplies w1 = tl (fetchReplies w)"
    using get_fetch_world(1,2) [of "ID m" "log_line (LogAttemptFetch (ID m)) w"] g by simp_all
  have ih: "\<And>l. fst (display_matches ok idx pid ms (log_line l w1)) \<noteq> None \<longleftrightarrow>
     (\<exists>i<length ms. fetch_fails ok idx pid (ms ! i) (reply_at (fetchReplies w) (Suc i)))"
    using Cons.IH by (simp add: w1 reply_at_tl)
  show ?case
    unfolding ex_less_Suc_shift length_Cons
    using g r ih
    by (auto simp: fetch_fails_def Let_def split: reply.splits option.splits)
qed

lemma fetch_matches_error_iff:
  "fst (fetch_matches ok idx pid ms w) \<noteq> None \<longleftrightarrow>
     (\<exists>i<length ms. fetch_fails ok idx pid (ms ! i) (reply_at (fetchReplies w) i))"
proof (induction ms arbitrary: w)
  case Nil
  show ?case by simp
next
  case (Cons m ms)
  obtain r w1 where g: "get_fetch (ID m) w = (r, w1)"
    by (cases "get_fetch (ID m) w")
  have r: "r = reply_at (fetchReplies w) 0" and w1: "fetchReplies w1 = tl (fetchReplies w)"
    using get_fetch_world(1,2) [of "ID m" w] g by simp_all
  have ih: "\<And>l. fst (fetch_matches ok idx pid ms (log_line l w1)) \<noteq> None \<longleftrightarrow>
     (\<exists>i<length ms. fetch_fails ok idx pid (ms ! i) (reply_at (fetchReplies w) (Suc i)))"
    using Cons.IH by (simp add: w1 reply_at_tl)
  show ?case
    unfolding ex_less_Suc_shift length_Cons
    using g r ih
    by (auto simp: fetch_fails_def Let_def split: reply.splits option.splits)
qed

lemma post_embedding_world:
  "fst (post_embedding q m w) = reply_at (embedReplies w) 0"
  "fetchReplies (snd (post_embedding q m w)) = fetchReplies w"
  "queryReplies (snd (post_embedding q m w)) = queryReplies w"
  by (simp_all add: post_embedding_def split: list.splits)

lemma post_query_world:
  "fst (post_query v w) = reply_at (queryReplies w) 0"
  "fetchReplies (snd (post_query v w)) = fetchReplies w"
  by (simp_all add: post_query_def split: list.splits)

lemma queryPinecone_error_iff:
  "isl (fst (queryPinecone ok idx q pid w)) \<longleftrightarrow> query_round_fails ok idx q pid w"
proof -
  obtain e w1 where pe: "post_embedding q embeddingModel w = (e, w1)"
    by (cases "post_embedding q embeddingModel w")
  have e: "reply_at (embedReplies w) 0 = e" and w1: "fetchReplies w1 = fetchReplies w"
    "queryReplies w1 = queryReplies w"
    using post_embedding_world [of q embeddingModel w] pe by simp_all
  show ?thesis
  proof (cases "GetEmbedding q embeddingModel e")
    case (Inl err)
    then show ?thesis using pe e by (simp add: queryPinecone_def query_round_fails_def)
  next
    case (Inr v)
    obtain r w2 where pq: "post_query v w1 = (r, w2)" by (cases "post_query v w1")
    have r: "reply_at (queryReplies w) 0 = r" and w2: "fetchReplies w2 = fetchReplies w"
      using post_query_world [of v w1] pq w1 by simp_all
    show ?thesis
    proof (cases r)
      case (Body ms)
      have "fst (fetch_matches ok idx pid ms w2) \<noteq> None \<longleftrightarrow>
          (\<exists>i<length ms. fetch_fails ok idx pid (ms ! i) (reply_at (fetchReplies w) i))"
        using fetch_matches_error_iff [of ok idx pid ms w2] w2 by simp
      then show ?thesis using pe e Inr pq r Body
        by (cases "fetch_matches ok idx pid ms w2")
           (auto simp: queryPinecone_def query_round_fails_def split: option.splits)
    qed (use pe e Inr pq r in \<open>auto simp: queryPinecone_def query_round_fails_def\<close>)
  qed
qed

subsection \<open>One turn of the loop\<close>

text \<open>
  C6, as amended. In every turn of the loop on an input other than \<open>end\<close>: a failure
  inside \<open>queryPinecone\<close> (the embedding, the similarity query, or the fetch by
  identifier that \<open>queryPinecone\<close> itself makes for a match) is logged and the loop
  goes on to the next read; when \<open>queryPinecone\<close> has succeeded, a failure while
  building or sending the loop's own fetch request for a match, or decoding its
  response, makes the loop return to the caller with an error, whatever input is left.
\<close>

theorem promptUserAndQueryPinecone_failures:
  assumes "ToLower (TrimSpace text) \<noteq> ''end''"
  shows "(case queryPinecone ok idx (TrimSpace text) pid w of
            (Inl err, w1) \<Rightarrow>
              query_round_fails ok idx (TrimSpace text) pid w \<and>
              promptUserAndQueryPinecone ok idx pid (Inr text # reads) w =
                promptUserAndQueryPinecone ok idx pid reads (log_line (LogQueryError err) w1)
          | (Inr ms, w1) \<Rightarrow>
              \<not> query_round_fails ok idx (TrimSpace text) pid w \<and>
              ((\<exists>i<length ms. fetch_fails ok idx pid (ms ! i) (reply_at (fetchReplies w1) i)) \<longrightarrow>
                 fst (promptUserAndQueryPinecone ok idx pid (Inr text # reads) w) \<noteq> None \<and>
                 promptUserAndQueryPinecone ok idx pid (Inr text # reads) w =
                   display_matches ok idx pid ms w1))"
proof (cases "queryPinecone ok idx (TrimSpace text) pid w")
  case (Pair res w1)
  show ?thesis
  proof (cases res)
    case (Inl err)
    with Pair assms queryPinecone_error_iff [of ok idx "TrimSpace text" pid w]
    show ?thesis by simp
  next
    case (Inr ms)
    have q: "\<not> query_round_fails ok idx (TrimSpace text) pid w"
      using Pair Inr queryPinecone_error_iff [of ok idx "TrimSpace text" pid w] by simp
    have step: "promptUserAndQueryPinecone ok idx pid (Inr text # reads) w =
        (case display_matches ok idx pid ms w1 of
           (Some err, w2) \<Rightarrow> (Some err, w2)
         | (None, w2) \<Rightarrow> promptUserAndQueryPinecone ok idx pid reads w2)"
      using Pair Inr assms by simp
    have concl: "(\<exists>i<length ms. fetch_fails ok idx pid (ms ! i) (reply_at (fetchReplies w1) i)) \<longrightarrow>
          fst (promptUserAndQueryPinecone ok idx pid (Inr text # reads) w) \<noteq> None \<and>
          promptUserAndQueryPinecone ok idx pid (Inr text # reads) w = display_matches ok idx pid ms w1"
    proof
      assume f: "\<exists>i<length ms. fetch_fails ok idx pid (ms ! i) (reply_at (fetchReplies w1) i)"
      from f have "fst (display_matches ok idx pid ms w1) \<noteq> None"
        using display_matches_error_iff [of ok idx pid ms w1] by blast
      then obtain err w2 where d: "display_matches ok idx pid ms w1 = (Some err, w2)"
        by (cases "display_matches ok idx pid ms w1") auto
      show "fst (promptUserAndQueryPinecone ok idx pid (Inr text # reads) w) \<noteq> None \<and>
          promptUserAndQueryPinecone ok idx pid (Inr text # reads) w = display_matches ok idx pid ms w1"
        unfolding step d by simp
    qed
    show ?thesis unfolding Pair Inr prod.case sum.case using q concl by (rule conjI)
  qed
qed

theorem promptUserAndQueryPinecone_failures_witness:
  "ToLower (TrimSpace ''hello\<newline>'') \<noteq> ''end'' \<and>
   fst (promptUserAndQueryPinecone (\<lambda>url. True) ''whatsapp-chat'' ''abc1234'' hello_then_end
          ((sample_world [])\<lparr>embedReplies := [BadBody]\<rparr>)) = None \<and>
   logged (snd (promptUserAndQueryPinecone (\<lambda>url. True) ''whatsapp-chat'' ''abc1234''
          hello_then_end ((sample_world [])\<lparr>embedReplies := [BadBody]\<rparr>))) =
     [LogEmbeddingError DecodeError, LogQueryError (EmbeddingQueryError DecodeError)] \<and>
   fst (promptUserAndQueryPinecone (\<lambda>url. True) ''whatsapp-chat'' ''abc1234'' hello_then_end
          (sample_world [Body sample_vectors, BadBody])) = Some DecodeError \<and>
   issued (snd (promptUserAndQueryPinecone (\<lambda>url. True) ''whatsapp-chat'' ''abc1234''
          hello_then_end (sample_world [Body sample_vectors, BadBody]))) =
     [EmbeddingCall ''hello'' embeddingModel, QueryCall [Finite 1] 1,
      FetchCall ''vector_id_1'', FetchCall ''vector_id_1'']"
proof -
  have h: "ToLower (TrimSpace ''hello\<newline>'') \<noteq> ''end''"
    by (simp add: trim_samples)
  note t = promptUserAndQueryPinecone_failures [OF h, of "\<lambda>url. True" "''whatsapp-chat''"
      "''abc1234''" _ "[Inr ''end\<newline>'']"]
  from h t [of "(sample_world [])\<lparr>embedReplies := [BadBody]\<rparr>"]
    t [of "sample_world [Body sample_vectors, BadBody]"]
  show ?thesis
    by (simp add: Let_def hello_then_end_def trim_samples queryPinecone_def sample_world_def
        sample_match_def sample_vectors_def post_embedding_def post_query_def get_fetch_def
        GetEmbedding_def is_finite_def log_line_def topK_def sanitize_hello)
qed

text \<open>
  C6 as stated has every failed fetch request end the loop with an error. Here the
  fetch that \<open>queryPinecone\<close> sends fails in the transport; the failure is logged, the
  loop reads the next input, \<open>end\<close>, and returns nil.
\<close>

theorem promptUserAndQueryPinecone_fetch_failure_counterexample:
  "promptUserAndQueryPinecone (\<lambda>url. True) ''whatsapp-chat'' ''abc1234'' hello_then_end
     (sample_world [NoReply]) =
   (None,
    \<lparr>embedReplies = [], queryReplies = [], fetchReplies = [],
     issued = [EmbeddingCall ''hello'' embeddingModel, QueryCall [Finite 1] 1,
               FetchCall ''vector_id_1''],
     logged = [LogFetchHTTPError, LogQueryError TransportError]\<rparr>)"
  by (simp add: Let_def hello_then_end_def trim_samples queryPinecone_def sample_world_def
      sample_match_def post_embedding_def post_query_def get_fetch_def GetEmbedding_def
      is_finite_def log_line_def topK_def sanitize_hello)

end
